theory Spec2Isabelle
  imports Main
begin

section \<open>JavaScript values used by backend.js\<close>

subsection \<open>Strings\<close>

text \<open>
  A JavaScript string is modelled as a \<open>string\<close> whose characters are the code units
  0..255 (Latin-1); the status words of the sheet need nothing beyond that range
  (\<open>\<oacute>\<close> is code unit 243). \<open>String.prototype.trim\<close> removes the white space and
  line terminators of ECMAScript; in this range they are TAB, LF, VT, FF, CR, SP and NBSP.
\<close>

definition isWhiteSpace :: "char \<Rightarrow> bool" where
  "isWhiteSpace c = (of_char c \<in> set [9, 10, 11, 12, 13, 32, 160 :: nat])"

definition trim :: "string \<Rightarrow> string" where
  "trim s = rev (dropWhile isWhiteSpace (rev (dropWhile isWhiteSpace s)))"

text \<open>\<open>s.includes(sub)\<close>: \<open>sub\<close> occurs in \<open>s\<close> as a contiguous run.\<close>

fun starts_with :: "string \<Rightarrow> string \<Rightarrow> bool" where
  "starts_with s [] = True"
| "starts_with [] (c # cs) = False"
| "starts_with (d # ds) (c # cs) = (d = c \<and> starts_with ds cs)"

fun str_includes :: "string \<Rightarrow> string \<Rightarrow> bool" where
  "str_includes [] sub = (sub = [])"
| "str_includes (d # ds) sub = (starts_with (d # ds) sub \<or> str_includes ds sub)"

text \<open>\<open>toLowerCase\<close> on the code units 0..255: A-Z and the accented capitals
  192..222 (without the multiplication sign 215) move up by 32.\<close>

definition toLowerChar :: "char \<Rightarrow> char" where
  "toLowerChar c =
     (let n = (of_char c :: nat)
      in if (65 \<le> n \<and> n \<le> 90) \<or> (192 \<le> n \<and> n \<le> 222 \<and> n \<noteq> 215)
         then char_of (n + 32) else c)"

definition toLowerCase :: "string \<Rightarrow> string" where
  "toLowerCase s = map toLowerChar s"

text \<open>The status words that the script writes to, or tests in, column 6 of the sheet
  \<open>Solicitudes\<close>.\<close>

definition Pendiente :: string where
  "Pendiente = ''Pendiente''"

definition NecesitaRevision :: string where
  "NecesitaRevision = ''Necesita Revisi'' @ [char_of (243 :: nat)] @ ''n''"

definition Aprobado :: string where
  "Aprobado = ''Aprobado''"

definition AprobadoExcepcion :: string where
  "AprobadoExcepcion = ''Aprobado (Excepci'' @ [char_of (243 :: nat)] @ ''n)''"

definition Cancelado :: string where
  "Cancelado = ''Cancelado''"

subsection \<open>Dates\<close>

text \<open>
  A \<open>Date\<close> holds a time value or NaN (\<open>Invalid Date\<close>). The script only uses the local
  calendar (\<open>setHours\<close>, \<open>getDay\<close>, \<open>setDate\<close>), so a valid date is modelled by its local
  wall-clock time: milliseconds since 1970-01-01 00:00 local time, every calendar day being
  86400000 ms long (no daylight-saving jump). A date cell of the sheet is either blank
  (the empty string, \<open>None\<close>) or a date.
\<close>

datatype jsdate = InvalidDate | LocalTime int

definition MS_PER_DAY :: int where
  "MS_PER_DAY = 86400000"

text \<open>\<open>getTime()\<close>; \<open>None\<close> is NaN.\<close>

fun getTime :: "jsdate \<Rightarrow> int option" where
  "getTime InvalidDate = None"
| "getTime (LocalTime t) = Some t"

text \<open>The relational operators on numbers: every comparison with NaN is false.\<close>

fun num_le :: "int option \<Rightarrow> int option \<Rightarrow> bool" where
  "num_le (Some a) (Some b) = (a \<le> b)"
| "num_le a b = False"

fun num_lt :: "int option \<Rightarrow> int option \<Rightarrow> bool" where
  "num_lt (Some a) (Some b) = (a < b)"
| "num_lt a b = False"

text \<open>
  \<open>normalizeDate(d)\<close>: \<open>new Date(d)\<close> set to local midnight. \<open>new Date('')\<close> of a blank
  cell is an invalid date, and \<open>setHours\<close> leaves an invalid date invalid.
\<close>

fun normalizeDate :: "jsdate option \<Rightarrow> jsdate" where
  "normalizeDate None = InvalidDate"
| "normalizeDate (Some InvalidDate) = InvalidDate"
| "normalizeDate (Some (LocalTime t)) = LocalTime (t - t mod MS_PER_DAY)"

text \<open>The calendar day of a local time (days since 1970-01-01), and \<open>getDay()\<close>:
  0 is Sunday, 6 is Saturday; 1970-01-01 was a Thursday.\<close>

definition dayOf :: "int \<Rightarrow> int" where
  "dayOf t = t div MS_PER_DAY"

definition getDay :: "int \<Rightarrow> int" where
  "getDay t = (dayOf t + 4) mod 7"

section \<open>Business days\<close>

text \<open>
  The loop of \<open>countBusinessDays_\<close>: \<open>cur\<close> walks from \<open>s\<close> in steps of one calendar day
  (\<open>cur.setDate(cur.getDate() + 1)\<close>) while \<open>cur <= e\<close>.
\<close>

function count_loop :: "int \<Rightarrow> int \<Rightarrow> nat \<Rightarrow> nat" where
  "count_loop cur e cnt =
     (if cur \<le> e
      then count_loop (cur + MS_PER_DAY) e
             (if getDay cur \<noteq> 0 \<and> getDay cur \<noteq> 6 then cnt + 1 else cnt)
      else cnt)"
  by pat_completeness auto
termination
  by (relation "measure (\<lambda>(cur, e, cnt). nat (e - cur + 1))") (auto simp: MS_PER_DAY_def)

declare count_loop.simps [simp del]

text \<open>
  \<open>countBusinessDays_(start, end)\<close>. A blank cell is falsy (first line); a \<open>Date\<close> object is
  truthy even when invalid, and with an invalid date both \<open>e < s\<close> and \<open>cur <= e\<close> are
  false, so the loop body never runs and the count stays 0.
\<close>

definition countBusinessDays :: "jsdate option \<Rightarrow> jsdate option \<Rightarrow> nat" where
  "countBusinessDays start fin =
     (if start = None \<or> fin = None then 0
      else (case (normalizeDate start, normalizeDate fin) of
              (LocalTime s, LocalTime e) \<Rightarrow> if e < s then 0 else count_loop s e 0
            | _ \<Rightarrow> 0))"

text \<open>A calendar day (days since 1970-01-01) is a business day when its weekday is
  neither Sunday (0) nor Saturday (6).\<close>

definition isBusinessDay :: "int \<Rightarrow> bool" where
  "isBusinessDay d = ((d + 4) mod 7 \<noteq> 0 \<and> (d + 4) mod 7 \<noteq> 6)"

definition businessDaysBetween :: "int \<Rightarrow> int \<Rightarrow> nat" where
  "businessDaysBetween a b = length (filter isBusinessDay [a..b])"


section \<open>The spreadsheet, the calendar and the other services\<close>

subsection \<open>Rows of the two sheets\<close>

text \<open>
  A data row of the sheet \<open>Solicitudes\<close>, columns 1 to 8, with the note attached to the
  status cell. The row of the sheet with number \<open>n\<close> (the header is row 1) is element
  \<open>n - 2\<close> of the list of data rows; the script's array index \<open>r\<close> into
  \<open>getDataRange().getValues()\<close> is \<open>n - 1\<close>. Column 7 is blank (\<open>None\<close>) until the business
  days are written; a blank event id is the empty string.
\<close>

datatype cell_note = NoNote | InvalidData | ConflictWith string string | DuplicateRequest

record request_row =
  rTimestamp :: jsdate
  rEmail :: string
  rEmpleado :: string
  rInicio :: "jsdate option"
  rFin :: "jsdate option"
  rEstado :: string
  rDias :: "int option"
  rEventId :: string
  rNote :: cell_note

text \<open>
  A data row of the sheet \<open>Empleados\<close>: name, email, team, the allowance (column 4), the
  used days (column 5) and the numeric cells of any further columns. A blank numeric cell
  reads as 0 everywhere (\<open>Number(x || 0)\<close>), so it is modelled by 0. Column 5 is the
  column that \<open>recalcEmpleados_\<close> writes: its cell holds a number or, when the value
  written was not a number, a text (\<open>TextCell\<close>), which \<open>Number\<close> reads as NaN.
\<close>

datatype numcell = NumberCell int | TextCell

record employee_row =
  eNombre :: string
  eEmail :: string
  eTeam :: string
  eSaldoHR :: int
  eUsados :: numcell
  eExtra :: "int list"

subsection \<open>Calendar events, mail, audit entries, errors\<close>

record cal_event =
  evTitle :: string
  evStart :: jsdate
  evEnd :: jsdate

text \<open>The subjects of the mails the script sends; the HTML bodies are left out.\<close>

datatype subject =
    RequestUnderReview
  | RequestReceived
  | VacationApproved
  | RequestStatus string
  | ManagerConflict string string
  | ManagerNewRequest string

record mail =
  mTo :: string
  mSubject :: subject
  mCc :: "string list"

text \<open>What \<open>sendEmailSafe_\<close> and \<open>notifyManagersCompact_\<close> report:
  \<open>{success: false, error: null}\<close> (nothing attempted), \<open>{success: true}\<close>, a caught
  delivery error, or "No managers found".\<close>

datatype delivery = NotAttempted | Delivered | DeliveryFailed | NoManagersFound

datatype rate_action = CreateRequestAction | CancelRequestAction | EditRequestAction

datatype audit_entry =
    AuditCreate int
  | AuditManagerAction int string
  | AuditCancel int
  | AuditEdit int

text \<open>
  The errors a call can end with. \<open>ServiceError\<close> is an exception raised by a Google
  service call; \<open>OutsideData\<close> stands for addressing a row that is not a data row of the
  sheet (the model holds the data rows only, not the header or the blank grid below).
\<close>

datatype error =
    ServerBusy
  | TooManyAttempts
  | Unauthorized
  | NotFoundOrDenied
  | CannotCancel string
  | InsufficientBalance "int option" int
  | PastDate
  | TooLate
  | AlreadyRequested
  | DatabaseError
  | ServiceError
  | OutsideData

subsection \<open>The state of one invocation\<close>

text \<open>
  Everything an invocation of the script can read or change. \<open>faults\<close> is the schedule of
  the service calls still to come: each call to the spreadsheet, the calendar or the mail
  service takes the head of the list and raises an exception when it is \<open>True\<close>; an empty
  list means every further call succeeds. \<open>accessLog\<close> records, for every access to the
  request or the employee table, whether the script lock was held at that moment.
  \<open>varUserNotified\<close> and \<open>varManagersNotified\<close> are the two local variables of
  \<open>processRequestRow_\<close>, which its \<open>catch\<close> block still returns after an exception.
  Cache entries do not expire in the model.
\<close>

record world =
  solicitudes :: "request_row list"
  empleados :: "employee_row list"
  empHeaders :: "string list"
  managerRows :: "string list"
  managerCache :: "string list option"
  rateCache :: "rate_action \<times> string \<Rightarrow> nat"
  events :: "string \<rightharpoonup> cal_event"
  idGen :: "nat \<Rightarrow> string"
  idCount :: nat
  outbox :: "mail list"
  auditLog :: "audit_entry list"
  activeUser :: string
  nowTime :: int
  lockFree :: bool
  lockHeld :: bool
  accessLog :: "bool list"
  faults :: "bool list"
  varUserNotified :: delivery
  varManagersNotified :: delivery

subsection \<open>Programs: state passing with exceptions\<close>

type_synonym 'a prog = "world \<Rightarrow> (error + 'a) \<times> world"

definition ret :: "'a \<Rightarrow> 'a prog" where
  "ret x = (\<lambda>w. (Inr x, w))"

definition throw :: "error \<Rightarrow> 'a prog" where
  "throw e = (\<lambda>w. (Inl e, w))"

definition bnd :: "'a prog \<Rightarrow> ('a \<Rightarrow> 'b prog) \<Rightarrow> 'b prog" where
  "bnd m f = (\<lambda>w. case m w of (Inl e, w') \<Rightarrow> (Inl e, w') | (Inr x, w') \<Rightarrow> f x w')"

definition gets :: "(world \<Rightarrow> 'a) \<Rightarrow> 'a prog" where
  "gets f = (\<lambda>w. (Inr (f w), w))"

definition modify :: "(world \<Rightarrow> world) \<Rightarrow> unit prog" where
  "modify f = (\<lambda>w. (Inr (), f w))"

text \<open>\<open>try { m } catch (e) { h e }\<close> and \<open>try { m } finally { fin }\<close>.\<close>

definition try_catch :: "'a prog \<Rightarrow> (error \<Rightarrow> 'a prog) \<Rightarrow> 'a prog" where
  "try_catch m h = (\<lambda>w. case m w of (Inl e, w') \<Rightarrow> h e w' | (Inr x, w') \<Rightarrow> (Inr x, w'))"

definition try_finally :: "'a prog \<Rightarrow> (world \<Rightarrow> world) \<Rightarrow> 'a prog" where
  "try_finally m fin = (\<lambda>w. case m w of (r, w') \<Rightarrow> (r, fin w'))"

text \<open>A call to a Google service: it consumes one entry of the fault schedule.\<close>

definition service :: "'a prog \<Rightarrow> 'a prog" where
  "service m = (\<lambda>w. case faults w of
       [] \<Rightarrow> m w
     | b # bs \<Rightarrow> if b then (Inl ServiceError, w\<lparr>faults := bs\<rparr>) else m (w\<lparr>faults := bs\<rparr>))"

subsection \<open>Spreadsheet primitives\<close>

definition logAccess :: "world \<Rightarrow> world" where
  "logAccess w = w\<lparr>accessLog := accessLog w @ [lockHeld w]\<rparr>"

text \<open>\<open>_getDb()\<close>: \<open>SpreadsheetApp.openById\<close>, an exception rethrown as
  "Error connecting to database".\<close>

definition getDb :: "unit prog" where
  "getDb = try_catch (service (ret ())) (\<lambda>e. throw DatabaseError)"

text \<open>\<open>sh.getDataRange().getValues()\<close> on \<open>Solicitudes\<close> and on \<open>Empleados\<close>.\<close>

definition readSolicitudes :: "request_row list prog" where
  "readSolicitudes = service (\<lambda>w. (Inr (solicitudes w), logAccess w))"

definition readEmpleados :: "employee_row list prog" where
  "readEmpleados = service (\<lambda>w. (Inr (empleados w), logAccess w))"

definition rowIndex :: "request_row list \<Rightarrow> int \<Rightarrow> nat option" where
  "rowIndex rows rowId =
     (if 2 \<le> rowId \<and> rowId \<le> int (length rows) + 1 then Some (nat (rowId - 2)) else None)"

text \<open>\<open>sheet.getRange(row, c).getValue()\<close> and \<open>.setValue(v)\<close> (also \<open>setNote\<close>,
  \<open>clearContent\<close>) on \<open>Solicitudes\<close>; the column is given by its field.\<close>

definition getCell :: "int \<Rightarrow> (request_row \<Rightarrow> 'a) \<Rightarrow> 'a prog" where
  "getCell rowId col = service (\<lambda>w.
     case rowIndex (solicitudes w) rowId of
       None \<Rightarrow> (Inl OutsideData, w)
     | Some i \<Rightarrow> (Inr (col (solicitudes w ! i)), logAccess w))"

definition setCell :: "int \<Rightarrow> (request_row \<Rightarrow> request_row) \<Rightarrow> unit prog" where
  "setCell rowId upd = service (\<lambda>w.
     case rowIndex (solicitudes w) rowId of
       None \<Rightarrow> (Inl OutsideData, w)
     | Some i \<Rightarrow>
         (Inr (), logAccess (w\<lparr>solicitudes := (solicitudes w)[i := upd (solicitudes w ! i)]\<rparr>)))"

text \<open>\<open>sh.appendRow(row)\<close> and \<open>sh.getLastRow()\<close>.\<close>

definition appendRow :: "request_row \<Rightarrow> unit prog" where
  "appendRow r = service (\<lambda>w. (Inr (), logAccess (w\<lparr>solicitudes := solicitudes w @ [r]\<rparr>)))"

definition getLastRow :: "int prog" where
  "getLastRow = service (\<lambda>w. (Inr (int (length (solicitudes w)) + 1), logAccess w))"

subsection \<open>Lock, session, audit log\<close>

text \<open>\<open>lock.waitLock(ms)\<close> inside the script's own \<open>try\<close>: a timeout becomes
  "Server busy"; and \<open>lock.releaseLock()\<close>.\<close>

definition waitLock :: "unit prog" where
  "waitLock = (\<lambda>w. if lockFree w then (Inr (), w\<lparr>lockHeld := True\<rparr>) else (Inl ServerBusy, w))"

definition releaseLock :: "world \<Rightarrow> world" where
  "releaseLock w = w\<lparr>lockHeld := False\<rparr>"

text \<open>\<open>logAudit_\<close> appends to the sheet \<open>Audit_Log\<close> inside its own \<open>try/catch\<close>.\<close>

definition logAudit :: "audit_entry \<Rightarrow> unit prog" where
  "logAudit a =
     try_catch (service (modify (\<lambda>w. w\<lparr>auditLog := auditLog w @ [a]\<rparr>))) (\<lambda>e. ret ())"

text \<open>\<open>RATE_LIMITS\<close> and \<open>checkRateLimit_\<close>, a counter in the user cache.\<close>

fun rateLimitMax :: "rate_action \<Rightarrow> nat" where
  "rateLimitMax CreateRequestAction = 5"
| "rateLimitMax CancelRequestAction = 3"
| "rateLimitMax EditRequestAction = 10"

definition checkRateLimit :: "string \<Rightarrow> rate_action \<Rightarrow> unit prog" where
  "checkRateLimit userEmail act = (\<lambda>w.
     let n = rateCache w (act, userEmail)
     in if n \<ge> rateLimitMax act then (Inl TooManyAttempts, w)
        else (Inr (), w\<lparr>rateCache := (rateCache w)((act, userEmail) := n + 1)\<rparr>))"


section \<open>Private helpers of backend.js\<close>

text \<open>
  The functions keep their names in the script without the trailing (or leading)
  underscore, which Isabelle does not allow in a name.
\<close>

subsection \<open>Employee lookups\<close>

fun teamLookup :: "employee_row list \<Rightarrow> string \<Rightarrow> string" where
  "teamLookup [] search = ''''"
| "teamLookup (x # xs) search =
     (if toLowerCase (trim (eNombre x)) = search \<or> toLowerCase (trim (eEmail x)) = search
      then eTeam x else teamLookup xs search)"

definition getEmployeeTeam :: "string \<Rightarrow> string prog" where
  "getEmployeeTeam empleado =
     bnd getDb (\<lambda>_.
     bnd readEmpleados (\<lambda>data.
     ret (teamLookup data (toLowerCase (trim empleado)))))"

fun nameLookup :: "employee_row list \<Rightarrow> string \<Rightarrow> string \<Rightarrow> string" where
  "nameLookup [] searchEmail email = email"
| "nameLookup (x # xs) searchEmail email =
     (if toLowerCase (trim (eEmail x)) = searchEmail then eNombre x
      else nameLookup xs searchEmail email)"

definition buscarNombrePorEmail :: "string \<Rightarrow> string prog" where
  "buscarNombrePorEmail email =
     bnd getDb (\<lambda>_.
     bnd readEmpleados (\<lambda>data.
     ret (nameLookup data (toLowerCase (trim email)) email)))"

subsection \<open>\<open>getEmployeeTotals_\<close>\<close>

record totals =
  tTotal :: int
  tUsados :: "int option"
  tRemaining :: "int option"
  tRow :: int

definition zeroTotals :: totals where
  "zeroTotals = \<lparr>tTotal = 0, tUsados = Some 0, tRemaining = Some 0, tRow = -1\<rparr>"

text \<open>\<open>headers.indexOf(h)\<close>: the first position of \<open>h\<close>, or \<open>None\<close> for -1.\<close>

fun indexOf :: "string list \<Rightarrow> string \<Rightarrow> nat option" where
  "indexOf [] h = None"
| "indexOf (x # xs) h = (if x = h then Some 0 else map_option Suc (indexOf xs h))"

text \<open>
  \<open>Number(vals[i][idx] || 0)\<close>: columns 4 and 5 (index 3 and 4) and the further numeric
  columns; a missing cell reads as 0. Under index 0 to 2 stands a text, which reads as 0
  when empty and else as NaN (\<open>None\<close>); a text that spells a number is not modelled.
  \<open>cellNumber\<close> reads a cell of column 5.
\<close>

fun cellNumber :: "numcell \<Rightarrow> int option" where
  "cellNumber (NumberCell n) = Some n"
| "cellNumber TextCell = None"

definition empNumberAt :: "employee_row \<Rightarrow> nat \<Rightarrow> int option" where
  "empNumberAt r idx =
     (if idx = 3 then Some (eSaldoHR r)
      else if idx = 4 then cellNumber (eUsados r)
      else if 5 \<le> idx then Some (if idx - 5 < length (eExtra r) then eExtra r ! (idx - 5) else 0)
      else (let t = (if idx = 0 then eNombre r else if idx = 1 then eEmail r else eTeam r)
            in if t = '''' then Some 0 else None))"

fun totalsLookup :: "employee_row list \<Rightarrow> nat \<Rightarrow> nat option \<Rightarrow> string \<Rightarrow> totals" where
  "totalsLookup [] i saldoVacacionesIdx search = zeroTotals"
| "totalsLookup (x # xs) i saldoVacacionesIdx search =
     (if toLowerCase (trim (eNombre x)) = search \<or> toLowerCase (trim (eEmail x)) = search
      then \<lparr>tTotal = eSaldoHR x, tUsados = cellNumber (eUsados x),
            tRemaining = (case saldoVacacionesIdx of
                            Some idx \<Rightarrow> empNumberAt x idx
                          | None \<Rightarrow> map_option (\<lambda>usados. eSaldoHR x - usados)
                                      (cellNumber (eUsados x))),
            tRow = int i + 2\<rparr>
      else totalsLookup xs (i + 1) saldoVacacionesIdx search)"

definition getEmployeeTotals :: "string \<Rightarrow> totals prog" where
  "getEmployeeTotals empleadoOrEmail =
     bnd getDb (\<lambda>_.
     bnd (service (\<lambda>w. (Inr (int (length (empleados w)) + 1), logAccess w))) (\<lambda>last.
     if last < 2 then ret zeroTotals
     else
       bnd (service (\<lambda>w. (Inr (empHeaders w), logAccess w))) (\<lambda>headers.
       bnd readEmpleados (\<lambda>vals.
       ret (totalsLookup vals 0 (indexOf headers ''SaldoVacaciones'')
              (toLowerCase (trim empleadoOrEmail)))))))"

subsection \<open>Managers and mail\<close>

text \<open>The \<open>filter\<close> of \<open>getManagerEmails_\<close>: non-empty entries, first occurrences only.\<close>

fun uniqManagers :: "string list \<Rightarrow> string list \<Rightarrow> string list" where
  "uniqManagers [] seen = []"
| "uniqManagers (x # xs) seen =
     (if x \<noteq> '''' \<and> x \<notin> set seen then x # uniqManagers xs (x # seen)
      else uniqManagers xs seen)"

definition getManagerEmails :: "string list prog" where
  "getManagerEmails =
     bnd (gets managerCache) (\<lambda>cached.
     case cached of
       Some ms \<Rightarrow> ret ms
     | None \<Rightarrow>
         bnd getDb (\<lambda>_.
         bnd (service (gets (\<lambda>w. int (length (managerRows w)) + 1))) (\<lambda>last.
         if last < 2 then ret []
         else
           bnd (service (gets managerRows)) (\<lambda>vals.
           let managers = uniqManagers (map trim vals) []
           in bnd (modify (\<lambda>w. w\<lparr>managerCache := Some managers\<rparr>)) (\<lambda>_.
              ret managers)))))"

definition sendEmailSafe :: "string \<Rightarrow> subject \<Rightarrow> string list \<Rightarrow> delivery prog" where
  "sendEmailSafe to subj cc =
     try_catch
       (bnd (service (modify (\<lambda>w. w\<lparr>outbox := outbox w @ [\<lparr>mTo = to, mSubject = subj, mCc = cc\<rparr>]\<rparr>)))
            (\<lambda>_. ret Delivered))
       (\<lambda>e. ret DeliveryFailed)"

definition notifyManagersCompact :: "subject \<Rightarrow> delivery prog" where
  "notifyManagersCompact subj =
     bnd getManagerEmails (\<lambda>managers.
     case managers of
       [] \<Rightarrow> ret NoManagersFound
     | to # cc \<Rightarrow> sendEmailSafe to subj cc)"

subsection \<open>Calendar\<close>

text \<open>
  \<open>getCalendar_\<close>, \<open>cal.getEventById\<close>, \<open>ev.deleteEvent\<close>, \<open>ev.setTitle\<close>,
  \<open>ev.setAllDayDates\<close> and \<open>cal.createAllDayEvent\<close>. The calendar stores what it is given;
  the id of a new event is the next one of \<open>idGen\<close>.
\<close>

definition getCalendar :: "unit prog" where
  "getCalendar = service (ret ())"

definition getEventById :: "string \<Rightarrow> cal_event option prog" where
  "getEventById i = service (gets (\<lambda>w. events w i))"

definition deleteEvent :: "string \<Rightarrow> unit prog" where
  "deleteEvent i = service (modify (\<lambda>w. w\<lparr>events := (events w)(i := None)\<rparr>))"

definition setTitle :: "string \<Rightarrow> string \<Rightarrow> unit prog" where
  "setTitle i title = service (modify (\<lambda>w.
     w\<lparr>events := (events w)(i := map_option (\<lambda>ev. ev\<lparr>evTitle := title\<rparr>) (events w i))\<rparr>))"

definition setAllDayDates :: "string \<Rightarrow> jsdate \<Rightarrow> jsdate \<Rightarrow> unit prog" where
  "setAllDayDates i s e = service (modify (\<lambda>w.
     w\<lparr>events := (events w)(i := map_option (\<lambda>ev. ev\<lparr>evStart := s, evEnd := e\<rparr>) (events w i))\<rparr>))"

definition createAllDayEvent :: "string \<Rightarrow> jsdate \<Rightarrow> jsdate \<Rightarrow> string prog" where
  "createAllDayEvent title s e = service (\<lambda>w.
     let i = idGen w (idCount w)
     in (Inr i, w\<lparr>events := (events w)(i \<mapsto> \<lparr>evTitle = title, evStart = s, evEnd = e\<rparr>),
                  idCount := idCount w + 1\<rparr>))"

text \<open>\<open>e.setDate(e.getDate() + 1)\<close>: the same time on the next calendar day.\<close>

fun nextDay :: "jsdate \<Rightarrow> jsdate" where
  "nextDay InvalidDate = InvalidDate"
| "nextDay (LocalTime t) = LocalTime (t + MS_PER_DAY)"

subsection \<open>\<open>recalcEmpleados_\<close>\<close>

text \<open>
  \<open>Number(x) || 0\<close> of a cell of column 7. The cells of column 7 hold whole days, so the
  numbers are integers; JavaScript adds them as IEEE doubles, which gives the same sum as
  long as the absolute values added stay below \<open>2^53\<close> in total.
\<close>

definition daysNumber :: "int option \<Rightarrow> int" where
  "daysNumber c = (case c of None \<Rightarrow> 0 | Some n \<Rightarrow> n)"

text \<open>
  The dictionary \<open>usedByEmp\<close> starts as the plain object \<open>{}\<close>. Reading a key that is not
  a property of the object itself goes on to \<open>Object.prototype\<close>, whose property names in
  the V8 runtime are \<open>inheritedNames\<close>: what is found there is a function or, under
  \<open>__proto__\<close>, the prototype object (\<open>JInherited\<close>); any other key is \<open>undefined\<close>
  (\<open>None\<close>). \<open>__proto__\<close> is an accessor: reading it gives the prototype whatever was
  assigned, and assigning a number or a text to it changes nothing. The model keeps the
  properties of the object itself in a map.
\<close>

datatype jsval = JNum int | JText | JInherited

definition inheritedNames :: "string list" where
  "inheritedNames =
     [''constructor'', ''__defineGetter__'', ''__defineSetter__'', ''hasOwnProperty'',
      ''__lookupGetter__'', ''__lookupSetter__'', ''isPrototypeOf'', ''propertyIsEnumerable'',
      ''toString'', ''valueOf'', ''__proto__'', ''toLocaleString'']"

definition objGet :: "(string \<rightharpoonup> jsval) \<Rightarrow> string \<Rightarrow> jsval option" where
  "objGet obj k =
     (if k = ''__proto__'' then Some JInherited
      else case obj k of
             Some v \<Rightarrow> Some v
           | None \<Rightarrow> if k \<in> set inheritedNames then Some JInherited else None)"

definition objSet :: "(string \<rightharpoonup> jsval) \<Rightarrow> string \<Rightarrow> jsval \<Rightarrow> (string \<rightharpoonup> jsval)" where
  "objSet obj k v = (if k = ''__proto__'' then obj else obj(k \<mapsto> v))"

text \<open>
  \<open>v || 0\<close> and \<open>v + dias\<close>. A function, an object and a text are truthy (the texts that
  arise here are never empty); adding a number to one of them concatenates texts.
\<close>

fun truthy :: "jsval \<Rightarrow> bool" where
  "truthy (JNum n) = (n \<noteq> 0)"
| "truthy JText = True"
| "truthy JInherited = True"

definition orZero :: "jsval option \<Rightarrow> jsval" where
  "orZero x = (case x of None \<Rightarrow> JNum 0 | Some v \<Rightarrow> if truthy v then v else JNum 0)"

fun jsAdd :: "jsval \<Rightarrow> int \<Rightarrow> jsval" where
  "jsAdd (JNum n) dias = JNum (n + dias)"
| "jsAdd JText dias = JText"
| "jsAdd JInherited dias = JText"

fun usedLoop :: "request_row list \<Rightarrow> (string \<rightharpoonup> jsval) \<Rightarrow> (string \<rightharpoonup> jsval)" where
  "usedLoop [] usedByEmp = usedByEmp"
| "usedLoop (x # xs) usedByEmp =
     (if str_includes (rEstado x) Aprobado
      then (let emp = trim (rEmpleado x); dias = daysNumber (rDias x)
            in usedLoop xs (objSet usedByEmp emp (jsAdd (orZero (objGet usedByEmp emp)) dias)))
      else usedLoop xs usedByEmp)"

text \<open>
  \<open>setValues(outUsed)\<close> on column 5: a number is stored as a number and a text as a text.
  What the sheet stores for a function or an object is not documented; the model takes it
  to be a text as well.
\<close>

fun toCell :: "jsval \<Rightarrow> numcell" where
  "toCell (JNum n) = NumberCell n"
| "toCell JText = TextCell"
| "toCell JInherited = TextCell"

definition writeUsados :: "jsval list \<Rightarrow> unit prog" where
  "writeUsados outUsed = service (\<lambda>w.
     (Inr (), logAccess (w\<lparr>empleados :=
        map (\<lambda>(e, u). e\<lparr>eUsados := toCell u\<rparr>) (zip (empleados w) outUsed)
          @ drop (length outUsed) (empleados w)\<rparr>)))"

definition recalcEmpleados :: "unit prog" where
  "recalcEmpleados =
     bnd getDb (\<lambda>_.
     bnd readSolicitudes (\<lambda>dataS.
     let usedByEmp = usedLoop dataS Map.empty
     in bnd (service (\<lambda>w. (Inr (int (length (empleados w)) + 1), logAccess w))) (\<lambda>lastE.
        if lastE < 2 then ret ()
        else
          bnd readEmpleados (\<lambda>emps.
          let outUsed = map (\<lambda>e. orZero (objGet usedByEmp (trim (eNombre e)))) emps
          in if length outUsed > 0 then writeUsados outUsed else ret ()))))"

subsection \<open>\<open>sortSolicitudesByFechaInicio_\<close>\<close>

text \<open>The data rows sorted by column 4 ascending; the sort keeps the order of equal keys
  and puts rows without a date last.\<close>

fun startKey :: "request_row \<Rightarrow> int option" where
  "startKey r = (case rInicio r of Some (LocalTime t) \<Rightarrow> Some t | _ \<Rightarrow> None)"

definition sortByStart :: "request_row list \<Rightarrow> request_row list" where
  "sortByStart rows =
     sort_key (\<lambda>r. case startKey r of Some t \<Rightarrow> t | None \<Rightarrow> 0)
         (filter (\<lambda>r. startKey r \<noteq> None) rows)
       @ filter (\<lambda>r. startKey r = None) rows"

definition sortSolicitudesByFechaInicio :: "unit prog" where
  "sortSolicitudesByFechaInicio =
     bnd getDb (\<lambda>_.
     bnd getLastRow (\<lambda>last.
     if last > 2
     then service (\<lambda>w. (Inr (), logAccess (w\<lparr>solicitudes := sortByStart (solicitudes w)\<rparr>)))
     else ret ()))"

section \<open>Conflict detection\<close>

text \<open>
  The loop of \<open>hasOverlapPendingOrApprovedSameEmployee_\<close> over the rows from array index
  \<open>r\<close> on; \<open>s0\<close>, \<open>e0\<close> are the time values of the normalised candidate range. The result
  is \<open>{row: r + 1, estado: est}\<close> of the first row that conflicts, or \<open>null\<close>.
\<close>

fun sameEmployeeScan ::
  "request_row list \<Rightarrow> int \<Rightarrow> string \<Rightarrow> int option \<Rightarrow> int option \<Rightarrow> int \<Rightarrow> (int \<times> string) option"
where
  "sameEmployeeScan [] r empSearch s0 e0 currentRow = None"
| "sameEmployeeScan (x # xs) r empSearch s0 e0 currentRow =
     (if r + 1 = currentRow then sameEmployeeScan xs (r + 1) empSearch s0 e0 currentRow
      else if trim (rEmpleado x) \<noteq> empSearch
        then sameEmployeeScan xs (r + 1) empSearch s0 e0 currentRow
      else if rEstado x \<noteq> Pendiente \<and> \<not> str_includes (rEstado x) Aprobado
        then sameEmployeeScan xs (r + 1) empSearch s0 e0 currentRow
      else (let s1 = getTime (normalizeDate (rInicio x));
                e1 = getTime (normalizeDate (rFin x))
            in if num_le s0 e1 \<and> num_le s1 e0 then Some (r + 1, rEstado x)
               else sameEmployeeScan xs (r + 1) empSearch s0 e0 currentRow))"

definition hasOverlapPendingOrApprovedSameEmployee ::
  "string \<Rightarrow> jsdate option \<Rightarrow> jsdate option \<Rightarrow> int \<Rightarrow> (int \<times> string) option prog"
where
  "hasOverlapPendingOrApprovedSameEmployee empleado start fin currentRow =
     bnd getDb (\<lambda>_.
     bnd readSolicitudes (\<lambda>vals.
     ret (sameEmployeeScan vals 1 (trim empleado)
            (getTime (normalizeDate start)) (getTime (normalizeDate fin)) currentRow)))"

record team_conflict =
  tcRow :: int
  tcEmpleado :: string
  tcEstado :: string
  tcTeam :: string

fun teamScan ::
  "request_row list \<Rightarrow> int \<Rightarrow> string \<Rightarrow> string \<Rightarrow> int option \<Rightarrow> int option \<Rightarrow> int
     \<Rightarrow> team_conflict option prog"
where
  "teamScan [] r empleado team s0 e0 currentRow = ret None"
| "teamScan (x # xs) r empleado team s0 e0 currentRow =
     (if r + 1 = currentRow then teamScan xs (r + 1) empleado team s0 e0 currentRow
      else if rEstado x \<noteq> Pendiente \<and> \<not> str_includes (rEstado x) Aprobado
        then teamScan xs (r + 1) empleado team s0 e0 currentRow
      else if trim (rEmpleado x) = '''' \<or> trim (rEmpleado x) = empleado
        then teamScan xs (r + 1) empleado team s0 e0 currentRow
      else
        bnd (getEmployeeTeam (trim (rEmpleado x))) (\<lambda>team2.
        if team2 = '''' \<or> team2 \<noteq> team
        then teamScan xs (r + 1) empleado team s0 e0 currentRow
        else (let s1 = getTime (normalizeDate (rInicio x));
                  e1 = getTime (normalizeDate (rFin x))
              in if num_le s0 e1 \<and> num_le s1 e0
                 then ret (Some \<lparr>tcRow = r + 1, tcEmpleado = trim (rEmpleado x),
                                  tcEstado = rEstado x, tcTeam = team\<rparr>)
                 else teamScan xs (r + 1) empleado team s0 e0 currentRow)))"

definition hasTeamOverlapPendingOrApproved ::
  "string \<Rightarrow> jsdate option \<Rightarrow> jsdate option \<Rightarrow> int \<Rightarrow> team_conflict option prog"
where
  "hasTeamOverlapPendingOrApproved empleado start fin currentRow =
     bnd (getEmployeeTeam empleado) (\<lambda>team.
     if team = '''' then ret None
     else
       bnd getDb (\<lambda>_.
       bnd readSolicitudes (\<lambda>vals.
       teamScan vals 1 empleado team
         (getTime (normalizeDate start)) (getTime (normalizeDate fin)) currentRow)))"

text \<open>
  The test the loop of \<open>hasOverlapPendingOrApprovedSameEmployee_\<close> makes on one row \<open>x\<close>
  that is not the row being edited: same trimmed requester name, status \<open>Pendiente\<close> or a
  status that contains \<open>Aprobado\<close>, and closed-interval overlap of the normalised ranges.
\<close>

definition sameEmployeeConflict :: "request_row \<Rightarrow> string \<Rightarrow> int option \<Rightarrow> int option \<Rightarrow> bool" where
  "sameEmployeeConflict x empSearch s0 e0 =
     (trim (rEmpleado x) = empSearch
      \<and> (rEstado x = Pendiente \<or> str_includes (rEstado x) Aprobado)
      \<and> num_le s0 (getTime (normalizeDate (rFin x)))
      \<and> num_le (getTime (normalizeDate (rInicio x))) e0)"


section \<open>Request lifecycle\<close>

subsection \<open>Configuration constants\<close>

definition ENFORCE_BALANCE_BEFORE_EVENT :: bool where
  "ENFORCE_BALANCE_BEFORE_EVENT = True"

definition MIN_ADVANCE_DAYS :: int where
  "MIN_ADVANCE_DAYS = 0"

definition ENFORCE_MIN_ADVANCE_DAYS :: bool where
  "ENFORCE_MIN_ADVANCE_DAYS = False"

subsection \<open>\<open>handleEstadoChange_\<close>\<close>

definition eventTitle :: "string \<Rightarrow> string \<Rightarrow> string" where
  "eventTitle estado empleado =
     (if estado = AprobadoExcepcion then ''Vacations (EXCEPTION): '' @ empleado
      else ''Vacations: '' @ empleado)"

definition handleEstadoChange :: "int \<Rightarrow> string \<Rightarrow> unit prog" where
  "handleEstadoChange row prevEstado =
     bnd getCalendar (\<lambda>_.
     bnd (getCell row rEmail) (\<lambda>email.
     bnd (getCell row rEmpleado) (\<lambda>empleado.
     bnd (getCell row rInicio) (\<lambda>start.
     bnd (getCell row rFin) (\<lambda>fin.
     bnd (getCell row rEstado) (\<lambda>estado.
     bnd (getCell row rEventId) (\<lambda>eventId.
     if estado = Aprobado \<or> estado = AprobadoExcepcion
     then
       (let title = eventTitle estado empleado;
            s = normalizeDate start;
            e = nextDay (normalizeDate fin)
        in bnd (if eventId \<noteq> '''' then getEventById eventId else ret None) (\<lambda>ev.
           bnd (case ev of
                  Some _ \<Rightarrow> bnd (setTitle eventId title) (\<lambda>_. setAllDayDates eventId s e)
                | None \<Rightarrow>
                    bnd (createAllDayEvent title s e) (\<lambda>newId.
                    setCell row (\<lambda>r. r\<lparr>rEventId := newId\<rparr>))) (\<lambda>_.
           if email \<noteq> ''''
           then bnd (sendEmailSafe email VacationApproved []) (\<lambda>_. ret ())
           else ret ())))
     else
       bnd (if eventId \<noteq> ''''
            then try_catch
                   (bnd (getEventById eventId) (\<lambda>ev.
                    bnd (case ev of Some _ \<Rightarrow> deleteEvent eventId | None \<Rightarrow> ret ()) (\<lambda>_.
                    setCell row (\<lambda>r. r\<lparr>rEventId := ''''\<rparr>))))
                   (\<lambda>e. ret ())
            else ret ()) (\<lambda>_.
       if email \<noteq> '''' \<and> estado \<noteq> Pendiente \<and> estado \<noteq> NecesitaRevision
       then bnd (sendEmailSafe email (RequestStatus estado) []) (\<lambda>_. ret ())
       else ret ()))))))))"

subsection \<open>\<open>processRequestRow_\<close>\<close>

text \<open>The statements inside the \<open>try\<close> block. An early \<open>return\<close> ends the block. The
  dash that stands for an unknown team in the manager's mail is written \<open>-\<close>.\<close>

definition processRequestRowBody :: "int \<Rightarrow> unit prog" where
  "processRequestRowBody row =
     bnd (getCell row rEstado) (\<lambda>estado0.
     bnd (if estado0 = '''' then setCell row (\<lambda>r. r\<lparr>rEstado := Pendiente\<rparr>) else ret ()) (\<lambda>_.
     bnd (getCell row rEmail) (\<lambda>email.
     bnd (getCell row rEmpleado) (\<lambda>empleado.
     bnd (getCell row rInicio) (\<lambda>ini.
     bnd (getCell row rFin) (\<lambda>fin.
     bnd (getEmployeeTeam (trim empleado)) (\<lambda>team.
     if \<not> (empleado \<noteq> '''' \<and> ini \<noteq> None \<and> fin \<noteq> None
            \<and> num_le (getTime (normalizeDate ini)) (getTime (normalizeDate fin)))
     then setCell row (\<lambda>r. r\<lparr>rNote := InvalidData\<rparr>)
     else
       bnd (setCell row (\<lambda>r. r\<lparr>rDias := Some (int (countBusinessDays ini fin))\<rparr>)) (\<lambda>_.
       bnd (hasTeamOverlapPendingOrApproved empleado ini fin row) (\<lambda>teamOverlap.
       bnd (hasOverlapPendingOrApprovedSameEmployee empleado ini fin row) (\<lambda>selfOverlap.
       bnd (case teamOverlap of
              Some tc \<Rightarrow>
                bnd (setCell row (\<lambda>r. r\<lparr>rEstado := NecesitaRevision\<rparr>)) (\<lambda>_.
                bnd (setCell row (\<lambda>r. r\<lparr>rNote := ConflictWith (tcEmpleado tc) (tcEstado tc)\<rparr>)) (\<lambda>_.
                bnd (if email \<noteq> ''''
                     then bnd (sendEmailSafe email RequestUnderReview []) (\<lambda>d.
                          modify (\<lambda>w. w\<lparr>varUserNotified := d\<rparr>))
                     else ret ()) (\<lambda>_.
                ret (Some (ManagerConflict empleado (if team = '''' then ''-'' else team))))))
            | None \<Rightarrow>
                (case selfOverlap of
                   Some _ \<Rightarrow>
                     bnd (setCell row (\<lambda>r. r\<lparr>rEstado := NecesitaRevision\<rparr>)) (\<lambda>_.
                     bnd (setCell row (\<lambda>r. r\<lparr>rNote := DuplicateRequest\<rparr>)) (\<lambda>_.
                     ret None))
                 | None \<Rightarrow>
                     bnd (if email \<noteq> ''''
                          then bnd (sendEmailSafe email RequestReceived []) (\<lambda>d.
                               modify (\<lambda>w. w\<lparr>varUserNotified := d\<rparr>))
                          else ret ()) (\<lambda>_.
                     ret (Some (ManagerNewRequest empleado))))) (\<lambda>subjectManager.
       bnd (case subjectManager of
              Some subj \<Rightarrow>
                bnd (notifyManagersCompact subj) (\<lambda>d.
                modify (\<lambda>w. w\<lparr>varManagersNotified := d\<rparr>))
            | None \<Rightarrow> ret ()) (\<lambda>_.
       bnd recalcEmpleados (\<lambda>_.
       sortSolicitudesByFechaInicio)))))))))))))"

text \<open>
  \<open>processRequestRow_(sheet, row)\<close>: the two result variables start as "not attempted",
  the body runs inside \<open>try/catch\<close>, whose handler only logs, and the function returns
  \<open>{userNotified, managersNotified}\<close>.
\<close>

definition processRequestRow :: "int \<Rightarrow> (delivery \<times> delivery) prog" where
  "processRequestRow row =
     bnd (modify (\<lambda>w. w\<lparr>varUserNotified := NotAttempted, varManagersNotified := NotAttempted\<rparr>)) (\<lambda>_.
     bnd (try_catch (processRequestRowBody row) (\<lambda>e. ret ())) (\<lambda>_.
     gets (\<lambda>w. (varUserNotified w, varManagersNotified w))))"

subsection \<open>\<open>apiProcessRequest\<close>: the manager's decision\<close>

definition apiProcessRequest :: "int \<Rightarrow> string \<Rightarrow> unit prog" where
  "apiProcessRequest rowId action =
     bnd (gets activeUser) (\<lambda>userEmail.
     bnd getManagerEmails (\<lambda>managers.
     if userEmail \<notin> set managers then throw Unauthorized
     else
       bnd getDb (\<lambda>_.
       bnd (getCell rowId rEmpleado) (\<lambda>empleado.
       bnd (getCell rowId rDias) (\<lambda>diasCell.
       bnd (getCell rowId rEstado) (\<lambda>prevEstado.
       let dias = daysNumber diasCell
       in bnd (if action = Aprobado \<and> ENFORCE_BALANCE_BEFORE_EVENT
               then bnd (getEmployeeTotals empleado) (\<lambda>t.
                    if num_lt (map_option (\<lambda>r. r - dias) (tRemaining t)) (Some 0)
                    then throw (InsufficientBalance (tRemaining t) dias)
                    else ret ())
               else ret ()) (\<lambda>_.
          bnd (setCell rowId (\<lambda>r. r\<lparr>rEstado := action\<rparr>)) (\<lambda>_.
          bnd (handleEstadoChange rowId prevEstado) (\<lambda>_.
          bnd recalcEmpleados (\<lambda>_.
          bnd (logAudit (AuditManagerAction rowId action)) (\<lambda>_.
          ret ())))))))))))"

subsection \<open>\<open>apiCancelRequest\<close>\<close>

text \<open>The ownership loop: it stops at the row with number \<open>rowId\<close> and yields
  \<open>(found, status)\<close>; \<open>i\<close> is the array index of the first row of the list.\<close>

fun findOwnRequest :: "request_row list \<Rightarrow> int \<Rightarrow> int \<Rightarrow> string \<Rightarrow> bool \<times> string" where
  "findOwnRequest [] i rowId userEmail = (False, '''')"
| "findOwnRequest (x # xs) i rowId userEmail =
     (if i + 1 = rowId
      then (toLowerCase (trim (rEmail x)) = toLowerCase userEmail, rEstado x)
      else findOwnRequest xs (i + 1) rowId userEmail)"

definition apiCancelRequest :: "int \<Rightarrow> unit prog" where
  "apiCancelRequest rowId =
     bnd (gets activeUser) (\<lambda>userEmail.
     bnd (checkRateLimit userEmail CancelRequestAction) (\<lambda>_.
     bnd waitLock (\<lambda>_.
     try_finally
       (bnd getDb (\<lambda>_.
        bnd readSolicitudes (\<lambda>data.
        (case findOwnRequest data 1 rowId userEmail of (found, status) \<Rightarrow>
          if \<not> found then throw NotFoundOrDenied
          else if status \<noteq> Pendiente \<and> status \<noteq> NecesitaRevision
            then throw (CannotCancel status)
          else
            bnd (setCell rowId (\<lambda>r. r\<lparr>rEstado := Cancelado\<rparr>)) (\<lambda>_.
            bnd (getCell rowId rEventId) (\<lambda>eventId.
            bnd (if eventId \<noteq> ''''
                 then try_catch
                        (bnd getCalendar (\<lambda>_.
                         bnd (getEventById eventId) (\<lambda>ev.
                         bnd (case ev of Some _ \<Rightarrow> deleteEvent eventId | None \<Rightarrow> ret ()) (\<lambda>_.
                         setCell rowId (\<lambda>r. r\<lparr>rEventId := ''''\<rparr>)))))
                        (\<lambda>e. ret ())
                 else ret ()) (\<lambda>_.
            bnd recalcEmpleados (\<lambda>_.
            bnd (logAudit (AuditCancel rowId)) (\<lambda>_.
            ret ())))))))))
       releaseLock)))"

subsection \<open>\<open>apiEditRequest\<close> and \<open>apiCreateRequest\<close>\<close>

text \<open>
  The two date arguments are given as the \<open>Date\<close> objects that \<open>parseDateToNoon_\<close> makes
  of the client's text (an invalid date when the text does not parse); the parsing of the
  text by the JavaScript engine is not part of the model, and neither is an empty
  argument, for which \<open>parseDateToNoon_\<close> returns \<open>null\<close>.
\<close>

definition apiEditRequest :: "int \<Rightarrow> jsdate \<Rightarrow> jsdate \<Rightarrow> unit prog" where
  "apiEditRequest rowId startObj endObj =
     bnd (gets activeUser) (\<lambda>userEmail.
     bnd (checkRateLimit userEmail EditRequestAction) (\<lambda>_.
     bnd waitLock (\<lambda>_.
     try_finally
       (bnd getDb (\<lambda>_.
        bnd (setCell rowId (\<lambda>r. r\<lparr>rInicio := Some startObj\<rparr>)) (\<lambda>_.
        bnd (setCell rowId (\<lambda>r. r\<lparr>rFin := Some endObj\<rparr>)) (\<lambda>_.
        bnd (setCell rowId (\<lambda>r. r\<lparr>rEstado := Pendiente\<rparr>)) (\<lambda>_.
        bnd (processRequestRow rowId) (\<lambda>_.
        bnd (logAudit (AuditEdit rowId)) (\<lambda>_.
        ret ())))))))
       releaseLock)))"

text \<open>The statements of \<open>apiCreateRequest\<close> from the name lookup to \<open>sh.getLastRow()\<close>:
  validation and the insert of the new row; the result is the number of the new row.\<close>

definition createInsert :: "string \<Rightarrow> jsdate \<Rightarrow> jsdate \<Rightarrow> int prog" where
  "createInsert userEmail startObj endObj =
     bnd (buscarNombrePorEmail userEmail) (\<lambda>nombre0.
     let nombreEmpleado = (if nombre0 = '''' then userEmail else nombre0)
     in bnd (gets nowTime) (\<lambda>now.
        let today = now - now mod MS_PER_DAY
        in if num_lt (getTime startObj) (Some today) then throw PastDate
           else if ENFORCE_MIN_ADVANCE_DAYS \<and> MIN_ADVANCE_DAYS > 0
                   \<and> num_lt (map_option (\<lambda>t. t - today) (getTime startObj))
                        (Some (MIN_ADVANCE_DAYS * 24 * 60 * 60 * 1000))
             then throw TooLate
           else
             bnd (hasOverlapPendingOrApprovedSameEmployee nombreEmpleado
                    (Some startObj) (Some endObj) (-1)) (\<lambda>conflict.
             if conflict \<noteq> None then throw AlreadyRequested
             else
               bnd getDb (\<lambda>_.
               bnd (appendRow \<lparr>rTimestamp = LocalTime now, rEmail = userEmail,
                       rEmpleado = nombreEmpleado, rInicio = Some startObj,
                       rFin = Some endObj, rEstado = Pendiente, rDias = None,
                       rEventId = '''', rNote = NoNote\<rparr>) (\<lambda>_.
               bnd (service (ret ())) (\<lambda>_.
               getLastRow))))))"

definition apiCreateRequest :: "jsdate \<Rightarrow> jsdate \<Rightarrow> (delivery \<times> delivery) prog" where
  "apiCreateRequest startObj endObj =
     bnd (gets activeUser) (\<lambda>userEmail.
     bnd (checkRateLimit userEmail CreateRequestAction) (\<lambda>_.
     bnd waitLock (\<lambda>_.
     try_finally
       (bnd (createInsert userEmail startObj endObj) (\<lambda>newRowIndex.
        bnd (processRequestRow newRowIndex) (\<lambda>emailStatus.
        bnd (logAudit (AuditCreate newRowIndex)) (\<lambda>_.
        ret emailStatus))))
       releaseLock)))"


section \<open>Example states\<close>

text \<open>
  A state with empty sheets in which every service responds, and the rows used in the
  examples below. Monday 2025-03-03 at noon is local time 1741003200000, the Friday of
  that week 1741348800000.
\<close>

definition baseWorld :: world where
  "baseWorld =
     \<lparr>solicitudes = [], empleados = [],
      empHeaders = [''Nombre'', ''Email'', ''Team'', ''SaldoHR'', ''Usados''],
      managerRows = [''boss@corp.com''], managerCache = None,
      rateCache = (\<lambda>k. 0), events = Map.empty,
      idGen = (\<lambda>n. replicate (Suc n) CHR ''e''), idCount = 0,
      outbox = [], auditLog = [], activeUser = ''ana@corp.com'',
      nowTime = 1740000000000, lockFree = True, lockHeld = False,
      accessLog = [], faults = [],
      varUserNotified = NotAttempted, varManagersNotified = NotAttempted\<rparr>"

definition anaRow :: "string \<Rightarrow> string \<Rightarrow> request_row" where
  "anaRow estado eventId =
     \<lparr>rTimestamp = LocalTime 1740000000000, rEmail = ''ana@corp.com'', rEmpleado = ''Ana'',
      rInicio = Some (LocalTime 1741003200000), rFin = Some (LocalTime 1741348800000),
      rEstado = estado, rDias = Some 5, rEventId = eventId, rNote = NoNote\<rparr>"

definition anaEmployee :: "int \<Rightarrow> int \<Rightarrow> employee_row" where
  "anaEmployee saldo usados =
     \<lparr>eNombre = ''Ana'', eEmail = ''ana@corp.com'', eTeam = ''Ops'',
      eSaldoHR = saldo, eUsados = NumberCell usados, eExtra = []\<rparr>"

text \<open>Ana has one request under review for Monday to Friday.\<close>

definition reviewWorld :: world where
  "reviewWorld = baseWorld\<lparr>solicitudes := [anaRow NecesitaRevision '''']\<rparr>"

text \<open>Ana has a cancelled, a pending and an approved request for the same week.\<close>

definition threeRequestsWorld :: world where
  "threeRequestsWorld =
     baseWorld\<lparr>solicitudes := [anaRow Cancelado '''', anaRow Pendiente '''', anaRow Aprobado '''']\<rparr>"



text \<open>
  Ana's request is approved and refers to a calendar event \<open>gone\<close> that the calendar no
  longer has.
\<close>

definition staleWorld :: world where
  "staleWorld = baseWorld\<lparr>solicitudes := [anaRow Aprobado ''gone'']\<rparr>"

text \<open>Ana's request has just been approved by exception and has no event yet; and the
  same request with an event \<open>ev1\<close> that the calendar holds under an old title.\<close>

definition approvedWorld :: world where
  "approvedWorld = baseWorld\<lparr>solicitudes := [anaRow AprobadoExcepcion '''']\<rparr>"

definition bookedWorld :: world where
  "bookedWorld =
     baseWorld\<lparr>solicitudes := [anaRow Aprobado ''ev1''],
               events := [''ev1'' \<mapsto> \<lparr>evTitle = ''old'', evStart = InvalidDate,
                                       evEnd = InvalidDate\<rparr>]\<rparr>"

text \<open>
  The manager \<open>boss@corp.com\<close> decides on Ana's pending request of 5 days; Ana has an
  allowance of 10 days of which 8 are used, so 2 remain.
\<close>

definition decisionWorld :: world where
  "decisionWorld =
     baseWorld\<lparr>solicitudes := [anaRow Pendiente ''''],
               empleados := [anaEmployee 10 8],
               activeUser := ''boss@corp.com''\<rparr>"

text \<open>
  The manager \<open>boss@corp.com\<close>, who is not the requester, looks at Ana's pending request.
\<close>

definition managerWorld :: world where
  "managerWorld =
     baseWorld\<lparr>solicitudes := [anaRow Pendiente ''''],
               empleados := [anaEmployee 10 0],
               activeUser := ''boss@corp.com''\<rparr>"

text \<open>
  Eve, who is neither the requester nor a manager, looks at Ana's approved request, which
  has the calendar event \<open>ev1\<close>.
\<close>

definition eveWorld :: world where
  "eveWorld =
     baseWorld\<lparr>solicitudes := [anaRow Aprobado ''ev1''],
               empleados := [anaEmployee 10 5],
               events := [''ev1'' \<mapsto> \<lparr>evTitle = ''Vacations: Ana'',
                                       evStart = LocalTime 1740960000000,
                                       evEnd = LocalTime 1741392000000\<rparr>],
               activeUser := ''eve@corp.com''\<rparr>"

text \<open>
  Ana cancels her pending request, which still refers to the calendar event \<open>ev1\<close>; in
  the second state the seventh service call of the invocation, \<open>ev.deleteEvent()\<close>, raises
  an exception.
\<close>

definition cancelWorld :: world where
  "cancelWorld =
     baseWorld\<lparr>solicitudes := [anaRow Pendiente ''ev1''],
               empleados := [anaEmployee 10 0],
               events := [''ev1'' \<mapsto> \<lparr>evTitle = ''Vacations: Ana'',
                                       evStart = LocalTime 1740960000000,
                                       evEnd = LocalTime 1741392000000\<rparr>]\<rparr>"

definition cancelFaultWorld :: world where
  "cancelFaultWorld = cancelWorld\<lparr>faults := [False, False, False, False, False, False, True]\<rparr>"

text \<open>
  Ana creates a request; the seventeenth service call of the invocation, which is the
  database handle for the team lookup of the overlap check inside \<open>processRequestRow_\<close>,
  raises an exception. And Eve edits Ana's approved request while the fifth service call,
  the first read of \<open>processRequestRow_\<close>, raises an exception.
\<close>

definition createFaultWorld :: world where
  "createFaultWorld =
     baseWorld\<lparr>empleados := [anaEmployee 10 0], faults := replicate 16 False @ [True]\<rparr>"

definition editFaultWorld :: world where
  "editFaultWorld = eveWorld\<lparr>faults := [False, False, False, False, True]\<rparr>"

text \<open>The same cancellation when the fifth service call, \<open>getCalendar_()\<close>, raises an
  exception.\<close>

definition cancelNoCalendarWorld :: world where
  "cancelNoCalendarWorld = cancelWorld\<lparr>faults := [False, False, False, False, True]\<rparr>"


section \<open>Descriptions used in the statements\<close>

text \<open>
  The state a program leaves behind, whatever its result.
\<close>

definition post :: "'a prog \<Rightarrow> world \<Rightarrow> world" where
  "post m w = snd (m w)"



text \<open>
  What \<open>getManagerEmails_\<close> returns and caches when the spreadsheet responds: the cached
  list, or else the distinct non-empty trimmed entries of the manager sheet.
\<close>

definition managerList :: "world \<Rightarrow> string list" where
  "managerList w =
     (case managerCache w of
        Some ms \<Rightarrow> ms
      | None \<Rightarrow> if managerRows w = [] then [] else uniqManagers (map trim (managerRows w)) [])"

definition managerCacheAfter :: "world \<Rightarrow> string list option" where
  "managerCacheAfter w =
     (case managerCache w of
        Some ms \<Rightarrow> Some ms
      | None \<Rightarrow> if managerRows w = [] then None
                else Some (uniqManagers (map trim (managerRows w)) []))"

text \<open>What \<open>getEmployeeTotals_\<close> returns for a name or email when the spreadsheet
  responds.\<close>

definition totalsOf :: "world \<Rightarrow> string \<Rightarrow> totals" where
  "totalsOf w empleadoOrEmail =
     (if empleados w = [] then zeroTotals
      else totalsLookup (empleados w) 0 (indexOf (empHeaders w) ''SaldoVacaciones'')
             (toLowerCase (trim empleadoOrEmail)))"

text \<open>
  The state in which the locked section of \<open>apiCreateRequest\<close>, \<open>apiEditRequest\<close> or
  \<open>apiCancelRequest\<close> starts: the rate counter of the caller is advanced and the lock is
  held.
\<close>

definition entered :: "rate_action \<Rightarrow> world \<Rightarrow> world" where
  "entered act w =
     w\<lparr>rateCache := (rateCache w)((act, activeUser w) := rateCache w (act, activeUser w) + 1),
       lockHeld := True\<rparr>"


section \<open>Properties of the date utilities\<close>

lemma dayOf_midnight: "dayOf (a * MS_PER_DAY) = a"
  by (simp add: dayOf_def MS_PER_DAY_def)

lemma midnight_eq: "t - t mod MS_PER_DAY = dayOf t * MS_PER_DAY"
  by (simp add: dayOf_def minus_mod_eq_div_mult)

lemma getDay_midnight: "getDay (a * MS_PER_DAY) = (a + 4) mod 7"
  by (simp add: getDay_def dayOf_midnight)

lemma count_loop_days:
  "count_loop (a * MS_PER_DAY) (b * MS_PER_DAY) cnt = cnt + businessDaysBetween a b"
proof (induction "nat (b - a + 1)" arbitrary: a cnt)
  case 0
  then have "b < a" by simp
  then have "\<not> a * MS_PER_DAY \<le> b * MS_PER_DAY" "[a..b] = []"
    by (simp_all add: MS_PER_DAY_def)
  then show ?case
    by (simp add: count_loop.simps [of "a * MS_PER_DAY"] businessDaysBetween_def)
next
  case (Suc n)
  then have le: "a \<le> b" and n: "n = nat (b - (a + 1) + 1)" by simp_all
  have step: "(a + 1) * MS_PER_DAY = a * MS_PER_DAY + MS_PER_DAY"
    by (simp add: algebra_simps)
  have up: "[a..b] = a # [a + 1..b]"
    using le by (simp add: upto_rec1)
  have cmp: "a * MS_PER_DAY \<le> b * MS_PER_DAY"
    using le by (simp add: MS_PER_DAY_def)
  show ?case
    using Suc.hyps(1) [OF n] cmp
    by (simp add: count_loop.simps [of "a * MS_PER_DAY"] step [symmetric] getDay_midnight
        businessDaysBetween_def up isBusinessDay_def)
qed

lemma countBusinessDays_valid:
  "countBusinessDays (Some (LocalTime s)) (Some (LocalTime e)) =
     businessDaysBetween (dayOf s) (dayOf e)"
proof (cases "dayOf e < dayOf s")
  case True
  then have "dayOf e * MS_PER_DAY < dayOf s * MS_PER_DAY"
    by (simp add: MS_PER_DAY_def)
  with True show ?thesis
    by (simp add: countBusinessDays_def midnight_eq businessDaysBetween_def)
next
  case False
  then have "\<not> dayOf e * MS_PER_DAY < dayOf s * MS_PER_DAY"
    by (simp add: MS_PER_DAY_def)
  then show ?thesis
    by (simp add: countBusinessDays_def midnight_eq count_loop_days)
qed

lemma businessDaysBetween_empty: "b < a \<Longrightarrow> businessDaysBetween a b = 0"
  by (simp add: businessDaysBetween_def)

lemma businessDaysBetween_split:
  "a \<le> b \<Longrightarrow> b \<le> c \<Longrightarrow>
   businessDaysBetween a c = businessDaysBetween a b + businessDaysBetween (b + 1) c"
  by (simp add: businessDaysBetween_def upto_split2 [of a b c])

lemma businessDaysBetween_mono:
  assumes "a' \<le> a" and "b \<le> b'"
  shows "businessDaysBetween a b \<le> businessDaysBetween a' b'"
proof (cases "a \<le> b")
  case False
  then show ?thesis by (simp add: businessDaysBetween_empty)
next
  case True
  have "businessDaysBetween a' b' = businessDaysBetween a' b + businessDaysBetween (b + 1) b'"
    using assms True by (intro businessDaysBetween_split) auto
  moreover have "businessDaysBetween a' b \<ge> businessDaysBetween a b"
  proof (cases "a' = a")
    case False
    then have "businessDaysBetween a' b =
        businessDaysBetween a' (a - 1) + businessDaysBetween (a - 1 + 1) b"
      using assms True by (intro businessDaysBetween_split) auto
    then show ?thesis by simp
  qed simp
  ultimately show ?thesis by simp
qed

lemma businessDaysBetween_week:
  "(a + 4) mod 7 = 1 \<Longrightarrow> businessDaysBetween a (a + 6) = 5"
proof -
  assume m: "(a + 4) mod 7 = 1"
  have l: "[a..a + 6] = [a, a + 1, a + 2, a + 3, a + 4, a + 5, a + 6]"
    by (simp add: upto_rec1)
  have d: "isBusinessDay a" "isBusinessDay (a + 1)" "isBusinessDay (a + 2)"
    "isBusinessDay (a + 3)" "isBusinessDay (a + 4)"
    "\<not> isBusinessDay (a + 5)" "\<not> isBusinessDay (a + 6)"
    using m unfolding isBusinessDay_def by presburger+
  show ?thesis
    by (simp add: businessDaysBetween_def l d)
qed


lemma isBusinessDay_getDay: "isBusinessDay (dayOf t) \<longleftrightarrow> getDay t \<noteq> 0 \<and> getDay t \<noteq> 6"
  by (simp add: isBusinessDay_def getDay_def)

lemma businessDaysBetween_single: "businessDaysBetween a a = (if isBusinessDay a then 1 else 0)"
  by (simp add: businessDaysBetween_def)

lemma same_time_earlier:
  assumes "s mod MS_PER_DAY = e mod MS_PER_DAY" and "e < s"
  shows "dayOf e < dayOf s"
proof (rule ccontr)
  assume "\<not> dayOf e < dayOf s"
  then have "dayOf s * MS_PER_DAY \<le> dayOf e * MS_PER_DAY"
    by (simp add: MS_PER_DAY_def)
  moreover have "s = dayOf s * MS_PER_DAY + s mod MS_PER_DAY"
    "e = dayOf e * MS_PER_DAY + e mod MS_PER_DAY"
    by (simp_all add: dayOf_def)
  ultimately have "s \<le> e" using assms(1) by linarith
  with assms(2) show False by simp
qed

text \<open>
  Claim C5. For any two dates, \<open>countBusinessDays_\<close> returns 0 when the end day lies before
  the start day, and otherwise the number of calendar days of the closed range from the
  start day to the end day whose weekday is neither Saturday nor Sunday. Dates are
  compared by calendar day, as the function normalises both to midnight first; for dates
  that carry the same time of day, as the dates of the sheet do (noon), this is the
  comparison \<open>end < start\<close> of the dates themselves. A single weekday counts 1, a week from
  Monday to the following Sunday counts 5, and widening the range never lowers the count.
  A blank cell or an invalid date gives 0.
\<close>

theorem countBusinessDays_correct:
  "countBusinessDays (Some (LocalTime s)) (Some (LocalTime e)) =
     (if dayOf e < dayOf s then 0 else businessDaysBetween (dayOf s) (dayOf e))
   \<and> (s mod MS_PER_DAY = e mod MS_PER_DAY \<and> e < s \<longrightarrow>
        countBusinessDays (Some (LocalTime s)) (Some (LocalTime e)) = 0)
   \<and> (getDay s \<noteq> 0 \<and> getDay s \<noteq> 6 \<longrightarrow>
        countBusinessDays (Some (LocalTime s)) (Some (LocalTime s)) = 1)
   \<and> (getDay s = 1 \<and> dayOf e = dayOf s + 6 \<longrightarrow>
        countBusinessDays (Some (LocalTime s)) (Some (LocalTime e)) = 5)
   \<and> (dayOf s' \<le> dayOf s \<and> dayOf e \<le> dayOf e' \<longrightarrow>
        countBusinessDays (Some (LocalTime s)) (Some (LocalTime e))
          \<le> countBusinessDays (Some (LocalTime s')) (Some (LocalTime e')))
   \<and> countBusinessDays None x = 0 \<and> countBusinessDays x None = 0
   \<and> countBusinessDays (Some InvalidDate) x = 0 \<and> countBusinessDays x (Some InvalidDate) = 0"
proof -
  have p1: "countBusinessDays (Some (LocalTime s)) (Some (LocalTime e)) =
     (if dayOf e < dayOf s then 0 else businessDaysBetween (dayOf s) (dayOf e))"
    by (simp add: countBusinessDays_valid businessDaysBetween_empty)
  have p1': "s mod MS_PER_DAY = e mod MS_PER_DAY \<and> e < s \<longrightarrow>
        countBusinessDays (Some (LocalTime s)) (Some (LocalTime e)) = 0"
    using same_time_earlier [of s e] by (simp add: p1)
  have p2: "getDay s \<noteq> 0 \<and> getDay s \<noteq> 6 \<longrightarrow>
        countBusinessDays (Some (LocalTime s)) (Some (LocalTime s)) = 1"
    by (simp add: countBusinessDays_valid businessDaysBetween_single isBusinessDay_getDay)
  have p3: "getDay s = 1 \<and> dayOf e = dayOf s + 6 \<longrightarrow>
        countBusinessDays (Some (LocalTime s)) (Some (LocalTime e)) = 5"
    by (simp add: countBusinessDays_valid getDay_def businessDaysBetween_week)
  have p4: "dayOf s' \<le> dayOf s \<and> dayOf e \<le> dayOf e' \<longrightarrow>
        countBusinessDays (Some (LocalTime s)) (Some (LocalTime e))
          \<le> countBusinessDays (Some (LocalTime s')) (Some (LocalTime e'))"
    by (simp add: countBusinessDays_valid businessDaysBetween_mono)
  have p5: "countBusinessDays None x = 0" "countBusinessDays x None = 0"
    by (simp_all add: countBusinessDays_def)
  have p6: "countBusinessDays (Some InvalidDate) x = 0"
    by (cases x) (simp_all add: countBusinessDays_def)
  have p7: "countBusinessDays x (Some InvalidDate) = 0"
  proof (cases x)
    case (Some d)
    then show ?thesis by (cases d) (simp_all add: countBusinessDays_def)
  qed (simp add: countBusinessDays_def)
  from p1 p1' p2 p3 p4 p5 p6 p7 show ?thesis by blast
qed

text \<open>
  Monday 2025-03-03 at noon is local time 1741003200000 (day 20150); the following Friday
  and Sunday at noon are days 20154 and 20156.
\<close>

theorem countBusinessDays_correct_witness:
  "countBusinessDays (Some (LocalTime 1741003200000)) (Some (LocalTime 1741003200000)) = 1
   \<and> countBusinessDays (Some (LocalTime 1741003200000)) (Some (LocalTime 1741521600000)) = 5
   \<and> (1741348800000 :: int) mod MS_PER_DAY = 1741003200000 mod MS_PER_DAY
   \<and> (1741003200000 :: int) < 1741348800000
   \<and> countBusinessDays (Some (LocalTime 1741348800000)) (Some (LocalTime 1741003200000)) = 0
   \<and> countBusinessDays (Some (LocalTime 1741003200000)) (Some (LocalTime 1741348800000))
       \<le> countBusinessDays (Some (LocalTime 1741003200000)) (Some (LocalTime 1741521600000))"
proof -
  have d: "dayOf 1741003200000 = 20150" "dayOf 1741521600000 = 20156"
    "dayOf 1741348800000 = 20154"
    by (simp_all add: dayOf_def MS_PER_DAY_def)
  have g: "getDay 1741003200000 = 1"
    by (simp add: getDay_def d)
  have noon: "(1741348800000 :: int) mod MS_PER_DAY = 1741003200000 mod MS_PER_DAY
      \<and> (1741003200000 :: int) < 1741348800000"
    by (simp add: MS_PER_DAY_def)
  have single: "countBusinessDays (Some (LocalTime 1741003200000)) (Some (LocalTime 1741003200000)) = 1"
    using countBusinessDays_correct [of 1741003200000 1741521600000 0 0 None] g by simp
  have week: "countBusinessDays (Some (LocalTime 1741003200000)) (Some (LocalTime 1741521600000)) = 5"
    using countBusinessDays_correct [of 1741003200000 1741521600000 0 0 None] g d by simp
  have backwards: "countBusinessDays (Some (LocalTime 1741348800000)) (Some (LocalTime 1741003200000)) = 0"
    using countBusinessDays_correct [of 1741348800000 1741003200000 0 0 None] noon by blast
  have inside: "dayOf 1741003200000 \<le> dayOf 1741003200000
      \<and> dayOf 1741348800000 \<le> dayOf 1741521600000"
    by (simp add: d)
  have wider: "countBusinessDays (Some (LocalTime 1741003200000)) (Some (LocalTime 1741348800000))
       \<le> countBusinessDays (Some (LocalTime 1741003200000)) (Some (LocalTime 1741521600000))"
    using countBusinessDays_correct
      [of 1741003200000 1741348800000 1741003200000 1741521600000 None] inside
    by blast
  from single week noon backwards wider show ?thesis by blast
qed


section \<open>Running programs\<close>

lemma bnd_apply:
  "bnd m f w = (case m w of (Inl e, w') \<Rightarrow> (Inl e, w') | (Inr x, w') \<Rightarrow> f x w')"
  by (simp add: bnd_def)

lemma ret_apply: "ret x w = (Inr x, w)"
  by (simp add: ret_def)

lemma throw_apply: "throw e w = (Inl e, w)"
  by (simp add: throw_def)

lemma gets_apply: "gets f w = (Inr (f w), w)"
  by (simp add: gets_def)

lemma modify_apply: "modify f w = (Inr (), f w)"
  by (simp add: modify_def)

lemma try_catch_apply:
  "try_catch m h w = (case m w of (Inl e, w') \<Rightarrow> h e w' | (Inr x, w') \<Rightarrow> (Inr x, w'))"
  by (simp add: try_catch_def)

lemma try_finally_apply: "try_finally m fin w = (case m w of (r, w') \<Rightarrow> (r, fin w'))"
  by (simp add: try_finally_def)

lemma service_ok: "faults w = [] \<Longrightarrow> service m w = m w"
  by (simp add: service_def)

lemma service_step:
  "faults w = b # bs \<Longrightarrow>
   service m w = (if b then (Inl ServiceError, w\<lparr>faults := bs\<rparr>) else m (w\<lparr>faults := bs\<rparr>))"
  by (simp add: service_def)

lemmas run = bnd_apply ret_apply throw_apply gets_apply modify_apply try_catch_apply
  try_finally_apply

lemma rowIndex_Some:
  "rowIndex rows rowId = Some i \<longleftrightarrow> i < length rows \<and> rowId = int i + 2"
  by (auto simp: rowIndex_def)

lemmas svc = getDb_def readSolicitudes_def readEmpleados_def getCell_def setCell_def
  appendRow_def getLastRow_def getCalendar_def getEventById_def deleteEvent_def setTitle_def
  setAllDayDates_def createAllDayEvent_def sendEmailSafe_def logAudit_def writeUsados_def
  service_ok logAccess_def rowIndex_def

lemma prog_result: "fst (m w) = r \<Longrightarrow> m w = (r, post m w)"
  by (simp add: post_def prod_eq_iff)


section \<open>Properties of the conflict detector\<close>

lemma sameEmployeeScan_None:
  "sameEmployeeScan xs r emp s0 e0 cur = None \<longleftrightarrow>
     (\<forall>i<length xs. r + int i + 1 = cur \<or> \<not> sameEmployeeConflict (xs ! i) emp s0 e0)"
proof (induction xs arbitrary: r)
  case Nil
  then show ?case by simp
next
  case (Cons x xs)
  have split: "\<And>P. (\<forall>i<Suc (length xs). P i) \<longleftrightarrow> P 0 \<and> (\<forall>i<length xs. P (Suc i))"
    by (auto simp: less_Suc_eq_0_disj)
  show ?case
    by (simp add: Cons.IH split sameEmployeeConflict_def Let_def add.assoc add.commute)
qed

lemma sameEmployeeScan_Some:
  "sameEmployeeScan xs r emp s0 e0 cur = Some (row, est) \<Longrightarrow>
     \<exists>i<length xs. row = r + int i + 1 \<and> est = rEstado (xs ! i)
        \<and> row \<noteq> cur \<and> sameEmployeeConflict (xs ! i) emp s0 e0
        \<and> (\<forall>j<i. r + int j + 1 = cur \<or> \<not> sameEmployeeConflict (xs ! j) emp s0 e0)"
proof (induction xs arbitrary: r)
  case Nil
  then show ?case by simp
next
  case (Cons x xs)
  show ?case
  proof (cases "r + 1 \<noteq> cur \<and> sameEmployeeConflict x emp s0 e0")
    case True
    with Cons.prems have "row = r + 1" "est = rEstado x"
      by (auto simp: sameEmployeeConflict_def Let_def)
    with True show ?thesis
      by (intro exI [of _ 0]) simp
  next
    case False
    with Cons.prems have "sameEmployeeScan xs (r + 1) emp s0 e0 cur = Some (row, est)"
      by (auto simp: sameEmployeeConflict_def Let_def split: if_splits)
    from Cons.IH [OF this] obtain i where i: "i < length xs" "row = r + 1 + int i + 1"
      "est = rEstado (xs ! i)" "row \<noteq> cur" "sameEmployeeConflict (xs ! i) emp s0 e0"
      "\<forall>j<i. r + 1 + int j + 1 = cur \<or> \<not> sameEmployeeConflict (xs ! j) emp s0 e0"
      by blast
    have "\<forall>j<Suc i. r + int j + 1 = cur \<or> \<not> sameEmployeeConflict ((x # xs) ! j) emp s0 e0"
    proof (intro allI impI)
      fix j assume "j < Suc i"
      show "r + int j + 1 = cur \<or> \<not> sameEmployeeConflict ((x # xs) ! j) emp s0 e0"
      proof (cases j)
        case 0
        with False show ?thesis by auto
      next
        case (Suc k)
        with \<open>j < Suc i\<close> i(6) have "r + 1 + int k + 1 = cur \<or> \<not> sameEmployeeConflict (xs ! k) emp s0 e0"
          by simp
        with Suc show ?thesis by (simp add: add.assoc add.commute)
      qed
    qed
    with i show ?thesis
      by (intro exI [of _ "Suc i"]) (simp add: add.assoc add.commute)
  qed
qed

lemma num_le_days:
  "num_le (getTime (normalizeDate (Some (LocalTime a)))) (getTime (normalizeDate (Some (LocalTime b))))
     \<longleftrightarrow> dayOf a \<le> dayOf b"
proof -
  have "dayOf a * MS_PER_DAY \<le> dayOf b * MS_PER_DAY \<longleftrightarrow> dayOf a \<le> dayOf b"
    by (simp add: MS_PER_DAY_def)
  then show ?thesis
    by (simp add: midnight_eq)
qed

lemma sameEmployeeConflict_days:
  "sameEmployeeConflict x emp (getTime (normalizeDate (Some (LocalTime s))))
       (getTime (normalizeDate (Some (LocalTime e))))
     \<longleftrightarrow> trim (rEmpleado x) = emp
        \<and> (rEstado x = Pendiente \<or> str_includes (rEstado x) Aprobado)
        \<and> (\<exists>a b. rInicio x = Some (LocalTime a) \<and> rFin x = Some (LocalTime b)
               \<and> dayOf s \<le> dayOf b \<and> dayOf a \<le> dayOf e)"
proof -
  have fin: "num_le (getTime (normalizeDate (Some (LocalTime s)))) (getTime (normalizeDate (rFin x)))
      \<longleftrightarrow> (\<exists>b. rFin x = Some (LocalTime b) \<and> dayOf s \<le> dayOf b)"
  proof (cases "rFin x")
    case None
    then show ?thesis by simp
  next
    case (Some d)
    then show ?thesis
      using num_le_days [of s] by (cases d) simp_all
  qed
  have ini: "num_le (getTime (normalizeDate (rInicio x))) (getTime (normalizeDate (Some (LocalTime e))))
      \<longleftrightarrow> (\<exists>a. rInicio x = Some (LocalTime a) \<and> dayOf a \<le> dayOf e)"
  proof (cases "rInicio x")
    case None
    then show ?thesis by simp
  next
    case (Some d)
    then show ?thesis
      using num_le_days [of _ e] by (cases d) simp_all
  qed
  show ?thesis
    unfolding sameEmployeeConflict_def using fin ini by auto
qed

lemma hasOverlapSame_result:
  assumes "hasOverlapPendingOrApprovedSameEmployee empleado start fin currentRow w = (Inr res, w')"
  shows "res = sameEmployeeScan (solicitudes w) 1 (trim empleado)
           (getTime (normalizeDate start)) (getTime (normalizeDate fin)) currentRow
         \<and> solicitudes w' = solicitudes w"
proof (cases "faults w")
  case Nil
  with assms show ?thesis
    by (auto simp: hasOverlapPendingOrApprovedSameEmployee_def run getDb_def
        readSolicitudes_def service_ok logAccess_def)
next
  case (Cons b bs)
  note outer = this
  show ?thesis
  proof (cases bs)
    case Nil
    with outer assms show ?thesis
      by (auto simp: hasOverlapPendingOrApprovedSameEmployee_def run getDb_def
          readSolicitudes_def service_def logAccess_def split: if_splits)
  next
    case (Cons c cs)
    with outer assms show ?thesis
      by (auto simp: hasOverlapPendingOrApprovedSameEmployee_def run getDb_def
          readSolicitudes_def service_def logAccess_def split: if_splits)
  qed
qed

lemma hasOverlapSame_ok:
  assumes "faults w = []"
  shows "hasOverlapPendingOrApprovedSameEmployee empleado start fin currentRow w =
           (Inr (sameEmployeeScan (solicitudes w) 1 (trim empleado)
                   (getTime (normalizeDate start)) (getTime (normalizeDate fin)) currentRow),
            logAccess w)"
  using assms
  by (simp add: hasOverlapPendingOrApprovedSameEmployee_def run getDb_def
      readSolicitudes_def service_ok)

text \<open>
  Claim C1, as amended. Whenever \<open>hasOverlapPendingOrApprovedSameEmployee_\<close> returns (it
  does when the spreadsheet responds), it leaves the rows unchanged and reports a conflict
  iff some row other than the row being edited has the same trimmed requester name, a
  status that is \<open>Pendiente\<close> or contains \<open>Aprobado\<close>, and a date range that overlaps the
  candidate range as closed intervals of calendar days; the row reported is the first such
  row, with its status.
\<close>

theorem sameEmployee_overlap_first_match:
  "(faults w = [] \<longrightarrow>
      (\<exists>res w'. hasOverlapPendingOrApprovedSameEmployee empleado start fin currentRow w
                  = (Inr res, w')))
   \<and> (\<forall>res w'.
        hasOverlapPendingOrApprovedSameEmployee empleado start fin currentRow w = (Inr res, w')
        \<longrightarrow> solicitudes w' = solicitudes w
          \<and> (res \<noteq> None \<longleftrightarrow>
               (\<exists>i<length (solicitudes w). int i + 2 \<noteq> currentRow
                  \<and> sameEmployeeConflict (solicitudes w ! i) (trim empleado)
                       (getTime (normalizeDate start)) (getTime (normalizeDate fin))))
          \<and> (\<forall>row est. res = Some (row, est) \<longrightarrow>
               (\<exists>i<length (solicitudes w). row = int i + 2
                  \<and> est = rEstado (solicitudes w ! i) \<and> row \<noteq> currentRow
                  \<and> sameEmployeeConflict (solicitudes w ! i) (trim empleado)
                       (getTime (normalizeDate start)) (getTime (normalizeDate fin))
                  \<and> (\<forall>j<i. int j + 2 = currentRow
                         \<or> \<not> sameEmployeeConflict (solicitudes w ! j) (trim empleado)
                             (getTime (normalizeDate start)) (getTime (normalizeDate fin))))))"
proof (intro conjI impI allI)
  assume "faults w = []"
  then show "\<exists>res w'. hasOverlapPendingOrApprovedSameEmployee empleado start fin currentRow w
                  = (Inr res, w')"
    by (simp add: hasOverlapSame_ok)
next
  fix res w'
  assume "hasOverlapPendingOrApprovedSameEmployee empleado start fin currentRow w = (Inr res, w')"
  then show "solicitudes w' = solicitudes w"
    by (simp add: hasOverlapSame_result)
next
  fix res w'
  assume "hasOverlapPendingOrApprovedSameEmployee empleado start fin currentRow w = (Inr res, w')"
  then have res: "res = sameEmployeeScan (solicitudes w) 1 (trim empleado)
           (getTime (normalizeDate start)) (getTime (normalizeDate fin)) currentRow"
    by (simp add: hasOverlapSame_result)
  have "res = None \<longleftrightarrow>
      (\<forall>i<length (solicitudes w). 1 + int i + 1 = currentRow
         \<or> \<not> sameEmployeeConflict (solicitudes w ! i) (trim empleado)
              (getTime (normalizeDate start)) (getTime (normalizeDate fin)))"
    unfolding res by (rule sameEmployeeScan_None)
  then show "res \<noteq> None \<longleftrightarrow>
       (\<exists>i<length (solicitudes w). int i + 2 \<noteq> currentRow
          \<and> sameEmployeeConflict (solicitudes w ! i) (trim empleado)
               (getTime (normalizeDate start)) (getTime (normalizeDate fin)))"
    by (auto simp: add.commute)
next
  fix res w' row est
  assume call: "hasOverlapPendingOrApprovedSameEmployee empleado start fin currentRow w = (Inr res, w')"
    and some: "res = Some (row, est)"
  from hasOverlapSame_result [OF call] some
  have "sameEmployeeScan (solicitudes w) 1 (trim empleado)
           (getTime (normalizeDate start)) (getTime (normalizeDate fin)) currentRow
         = Some (row, est)"
    by simp
  from sameEmployeeScan_Some [OF this]
  show "\<exists>i<length (solicitudes w). row = int i + 2
          \<and> est = rEstado (solicitudes w ! i) \<and> row \<noteq> currentRow
          \<and> sameEmployeeConflict (solicitudes w ! i) (trim empleado)
               (getTime (normalizeDate start)) (getTime (normalizeDate fin))
          \<and> (\<forall>j<i. int j + 2 = currentRow
                 \<or> \<not> sameEmployeeConflict (solicitudes w ! j) (trim empleado)
                     (getTime (normalizeDate start)) (getTime (normalizeDate fin)))"
    by (auto simp: add.commute)
qed

text \<open>
  With a cancelled, a pending and an approved request of Ana for the same week, a new
  request of Ana for that week conflicts with row 3, the pending one.
\<close>

theorem sameEmployee_overlap_first_match_witness:
  "faults threeRequestsWorld = []
   \<and> fst (hasOverlapPendingOrApprovedSameEmployee ''Ana'' (Some (LocalTime 1741003200000))
            (Some (LocalTime 1741348800000)) (-1) threeRequestsWorld)
       = Inr (Some (3, Pendiente))
   \<and> sameEmployeeConflict (solicitudes threeRequestsWorld ! 1) (trim ''Ana'')
        (getTime (normalizeDate (Some (LocalTime 1741003200000))))
        (getTime (normalizeDate (Some (LocalTime 1741348800000))))
   \<and> \<not> sameEmployeeConflict (solicitudes threeRequestsWorld ! 0) (trim ''Ana'')
        (getTime (normalizeDate (Some (LocalTime 1741003200000))))
        (getTime (normalizeDate (Some (LocalTime 1741348800000))))"
  using sameEmployee_overlap_first_match [of threeRequestsWorld "''Ana''"
      "Some (LocalTime 1741003200000)" "Some (LocalTime 1741348800000)" "-1"]
  by (simp add: hasOverlapSame_ok sameEmployeeConflict_def threeRequestsWorld_def
      baseWorld_def anaRow_def trim_def isWhiteSpace_def Cancelado_def Pendiente_def
      Aprobado_def MS_PER_DAY_def)

text \<open>
  Claim C1 as stated fails: a request of the same requester with status
  \<open>Necesita Revisi\<oacute>n\<close> whose range is the candidate range is not reported.
\<close>

theorem sameEmployee_overlap_counterexample:
  "fst (hasOverlapPendingOrApprovedSameEmployee ''Ana'' (Some (LocalTime 1741003200000))
          (Some (LocalTime 1741348800000)) (-1) reviewWorld) = Inr None
   \<and> length (solicitudes reviewWorld) = 1
   \<and> trim (rEmpleado (solicitudes reviewWorld ! 0)) = trim ''Ana''
   \<and> rEstado (solicitudes reviewWorld ! 0) = NecesitaRevision
   \<and> rInicio (solicitudes reviewWorld ! 0) = Some (LocalTime 1741003200000)
   \<and> rFin (solicitudes reviewWorld ! 0) = Some (LocalTime 1741348800000)"
  by (simp add: hasOverlapSame_ok reviewWorld_def baseWorld_def anaRow_def trim_def
      isWhiteSpace_def NecesitaRevision_def Pendiente_def Aprobado_def)


section \<open>Properties of the balance ledger\<close>







lemma zip_with_image: "zip xs (map f xs) = map (\<lambda>x. (x, f x)) xs"
  by (induction xs) simp_all

lemma write_back:
  "map2 (\<lambda>e u. e\<lparr>eUsados := toCell u\<rparr>) es (map f es) = map (\<lambda>e. e\<lparr>eUsados := toCell (f e)\<rparr>) es"
  by (simp add: zip_with_image)

lemma recalcEmpleados_ok:
  assumes "faults w = []"
  shows "fst (recalcEmpleados w) = Inr ()"
    and "empleados (post recalcEmpleados w) =
           map (\<lambda>e. e\<lparr>eUsados := toCell (orZero (objGet (usedLoop (solicitudes w) Map.empty)
                                                    (trim (eNombre e))))\<rparr>) (empleados w)"
    and "solicitudes (post recalcEmpleados w) = solicitudes w"
    and "faults (post recalcEmpleados w) = []"
    and "events (post recalcEmpleados w) = events w"
    and "lockHeld (post recalcEmpleados w) = lockHeld w"
    and "outbox (post recalcEmpleados w) = outbox w"
  using assms
  by (simp_all add: post_def recalcEmpleados_def run getDb_def readSolicitudes_def
      readEmpleados_def writeUsados_def service_ok logAccess_def Let_def write_back)






section \<open>State-change side effects\<close>

lemma handleEstadoChange_approved:
  fixes prev :: string
  assumes nf: "faults w = []" and i: "i < length (solicitudes w)"
    and appr: "rEstado (solicitudes w ! i) = Aprobado
               \<or> rEstado (solicitudes w ! i) = AprobadoExcepcion"
  defines "x \<equiv> solicitudes w ! i"
  defines "found \<equiv> rEventId x \<noteq> '''' \<and> events w (rEventId x) \<noteq> None"
  defines "ref \<equiv> (if found then rEventId x else idGen w (idCount w))"
  defines "w' \<equiv> post (handleEstadoChange (int i + 2) prev) w"
  shows "fst (handleEstadoChange (int i + 2) prev w) = Inr ()"
    and "solicitudes w' = (solicitudes w)[i := x\<lparr>rEventId := ref\<rparr>]"
    and "events w' = (events w)(ref \<mapsto>
           \<lparr>evTitle = eventTitle (rEstado x) (rEmpleado x),
            evStart = normalizeDate (rInicio x),
            evEnd = nextDay (normalizeDate (rFin x))\<rparr>)"
    and "idCount w' = (if found then idCount w else idCount w + 1)"
    and "faults w' = []"
    and "empleados w' = empleados w"
    and "outbox w' = outbox w @ (if rEmail x = '''' then []
           else [\<lparr>mTo = rEmail x, mSubject = VacationApproved, mCc = []\<rparr>])"
proof -
  have rid: "rowIndex (solicitudes w) (int i + 2) = Some i"
    using i by (simp add: rowIndex_def)
  show "fst (handleEstadoChange (int i + 2) prev w) = Inr ()"
    using nf i appr
    by (auto simp: handleEstadoChange_def run svc Let_def split: option.splits)
  show "solicitudes w' = (solicitudes w)[i := x\<lparr>rEventId := ref\<rparr>]"
    using nf i appr unfolding w'_def ref_def found_def x_def post_def
    by (auto simp: handleEstadoChange_def run svc Let_def list_update_same_conv
        split: option.splits)
  show "events w' = (events w)(ref \<mapsto>
           \<lparr>evTitle = eventTitle (rEstado x) (rEmpleado x),
            evStart = normalizeDate (rInicio x),
            evEnd = nextDay (normalizeDate (rFin x))\<rparr>)"
    using nf i appr unfolding w'_def ref_def found_def x_def post_def
    by (auto simp: handleEstadoChange_def run svc Let_def split: option.splits)
  show "idCount w' = (if found then idCount w else idCount w + 1)"
    using nf i appr unfolding w'_def ref_def found_def x_def post_def
    by (auto simp: handleEstadoChange_def run svc Let_def split: option.splits)
  show "faults w' = []"
    using nf i appr unfolding w'_def ref_def found_def x_def post_def
    by (auto simp: handleEstadoChange_def run svc Let_def split: option.splits)
  show "empleados w' = empleados w"
    using nf i appr unfolding w'_def ref_def found_def x_def post_def
    by (auto simp: handleEstadoChange_def run svc Let_def split: option.splits)
  show "outbox w' = outbox w @ (if rEmail x = '''' then []
           else [\<lparr>mTo = rEmail x, mSubject = VacationApproved, mCc = []\<rparr>])"
    using nf i appr unfolding w'_def ref_def found_def x_def post_def
    by (auto simp: handleEstadoChange_def run svc Let_def split: option.splits)
qed

text \<open>
  Claim C7, as amended. For a row whose status is \<open>Aprobado\<close> or \<open>Aprobado (Excepci\<oacute>n)\<close>,
  and when the services respond, \<open>handleEstadoChange_\<close> leaves in the calendar an all-day
  event from the start day to the day after the end day (end-exclusive), titled
  \<open>Vacations: name\<close>, or \<open>Vacations (EXCEPTION): name\<close> exactly for the exception status.
  When the row's event reference is not blank and the calendar finds that event, the event
  is updated and the reference stays; otherwise (no reference, or a reference the calendar
  does not know) a new event is created and its id is stored in the row. No other event
  and no other cell changes.
\<close>

theorem handleEstadoChange_calendar_event:
  "faults w = [] \<and> i < length (solicitudes w)
   \<and> (rEstado (solicitudes w ! i) = Aprobado \<or> rEstado (solicitudes w ! i) = AprobadoExcepcion)
   \<longrightarrow>
   (let x = solicitudes w ! i;
        found = (rEventId x \<noteq> '''' \<and> events w (rEventId x) \<noteq> None);
        ref = (if found then rEventId x else idGen w (idCount w));
        w' = snd (handleEstadoChange (int i + 2) prev w)
    in fst (handleEstadoChange (int i + 2) prev w) = Inr ()
       \<and> events w' ref = Some
            \<lparr>evTitle = (if rEstado x = AprobadoExcepcion
                         then ''Vacations (EXCEPTION): '' @ rEmpleado x
                         else ''Vacations: '' @ rEmpleado x),
             evStart = normalizeDate (rInicio x),
             evEnd = nextDay (normalizeDate (rFin x))\<rparr>
       \<and> (\<forall>k. k \<noteq> ref \<longrightarrow> events w' k = events w k)
       \<and> solicitudes w' = (solicitudes w)[i := x\<lparr>rEventId := ref\<rparr>]
       \<and> idCount w' = (if found then idCount w else idCount w + 1))"
proof (intro impI, elim conjE)
  assume nf: "faults w = []" and i: "i < length (solicitudes w)"
    and appr: "rEstado (solicitudes w ! i) = Aprobado
               \<or> rEstado (solicitudes w ! i) = AprobadoExcepcion"
  note h = handleEstadoChange_approved [OF nf i appr, of prev]
  show "let x = solicitudes w ! i;
        found = (rEventId x \<noteq> '''' \<and> events w (rEventId x) \<noteq> None);
        ref = (if found then rEventId x else idGen w (idCount w));
        w' = snd (handleEstadoChange (int i + 2) prev w)
    in fst (handleEstadoChange (int i + 2) prev w) = Inr ()
       \<and> events w' ref = Some
            \<lparr>evTitle = (if rEstado x = AprobadoExcepcion
                         then ''Vacations (EXCEPTION): '' @ rEmpleado x
                         else ''Vacations: '' @ rEmpleado x),
             evStart = normalizeDate (rInicio x),
             evEnd = nextDay (normalizeDate (rFin x))\<rparr>
       \<and> (\<forall>k. k \<noteq> ref \<longrightarrow> events w' k = events w k)
       \<and> solicitudes w' = (solicitudes w)[i := x\<lparr>rEventId := ref\<rparr>]
       \<and> idCount w' = (if found then idCount w else idCount w + 1)"
    unfolding Let_def
    using h(1) h(2) h(3) h(4)
    by (simp add: post_def eventTitle_def)
qed

text \<open>
  Ana's request for Monday 2025-03-03 to Friday 2025-03-07, approved by exception and
  without an event: a new event \<open>e\<close> from 2025-03-03 to 2025-03-08 (exclusive) is created
  and its id stored in the row.
\<close>

theorem handleEstadoChange_calendar_event_witness:
  "faults approvedWorld = [] \<and> (0::nat) < length (solicitudes approvedWorld)
   \<and> rEstado (solicitudes approvedWorld ! 0) = AprobadoExcepcion
   \<and> fst (handleEstadoChange 2 Pendiente approvedWorld) = Inr ()
   \<and> events (snd (handleEstadoChange 2 Pendiente approvedWorld)) ''e'' = Some
        \<lparr>evTitle = ''Vacations (EXCEPTION): Ana'',
         evStart = LocalTime 1740960000000, evEnd = LocalTime 1741392000000\<rparr>
   \<and> rEventId (solicitudes (snd (handleEstadoChange 2 Pendiente approvedWorld)) ! 0) = ''e''"
proof -
  have pre: "faults approvedWorld = [] \<and> (0::nat) < length (solicitudes approvedWorld)
     \<and> (rEstado (solicitudes approvedWorld ! 0) = Aprobado
         \<or> rEstado (solicitudes approvedWorld ! 0) = AprobadoExcepcion)"
    by (simp add: approvedWorld_def baseWorld_def anaRow_def)
  have row: "solicitudes approvedWorld ! 0 = anaRow AprobadoExcepcion []"
    "events approvedWorld = Map.empty"
    "idGen approvedWorld (idCount approvedWorld) = ''e''"
    by (simp_all add: approvedWorld_def baseWorld_def)
  from handleEstadoChange_calendar_event [of approvedWorld 0 Pendiente] pre
  have "fst (handleEstadoChange 2 Pendiente approvedWorld) = Inr ()
    \<and> events (snd (handleEstadoChange 2 Pendiente approvedWorld)) ''e'' = Some
         \<lparr>evTitle = ''Vacations (EXCEPTION): '' @ rEmpleado (anaRow AprobadoExcepcion []),
          evStart = normalizeDate (rInicio (anaRow AprobadoExcepcion [])),
          evEnd = nextDay (normalizeDate (rFin (anaRow AprobadoExcepcion [])))\<rparr>
    \<and> solicitudes (snd (handleEstadoChange 2 Pendiente approvedWorld))
        = (solicitudes approvedWorld)[0 := (anaRow AprobadoExcepcion [])\<lparr>rEventId := ''e''\<rparr>]"
    by (simp add: Let_def row anaRow_def)
  then show ?thesis
    using pre
    by (simp add: approvedWorld_def baseWorld_def anaRow_def MS_PER_DAY_def)
qed

text \<open>
  Claim C7 as stated fails where it says that an existing event reference means an update:
  the approved row refers to the event \<open>gone\<close>, which the calendar does not have, and the
  script creates a new event \<open>e\<close> and overwrites the reference.
\<close>

theorem handleEstadoChange_stale_reference_counterexample:
  "rEstado (solicitudes staleWorld ! 0) = Aprobado
   \<and> rEventId (solicitudes staleWorld ! 0) = ''gone''
   \<and> fst (handleEstadoChange 2 Pendiente staleWorld) = Inr ()
   \<and> idCount staleWorld = 0
   \<and> idCount (snd (handleEstadoChange 2 Pendiente staleWorld)) = 1
   \<and> events (snd (handleEstadoChange 2 Pendiente staleWorld)) ''gone'' = None
   \<and> events (snd (handleEstadoChange 2 Pendiente staleWorld)) ''e'' = Some
        \<lparr>evTitle = ''Vacations: Ana'',
         evStart = LocalTime 1740960000000, evEnd = LocalTime 1741392000000\<rparr>
   \<and> rEventId (solicitudes (snd (handleEstadoChange 2 Pendiente staleWorld)) ! 0) = ''e''"
proof -
  have nf: "faults staleWorld = []" and i: "0 < length (solicitudes staleWorld)"
    and appr: "rEstado (solicitudes staleWorld ! 0) = Aprobado
               \<or> rEstado (solicitudes staleWorld ! 0) = AprobadoExcepcion"
    by (simp_all add: staleWorld_def baseWorld_def anaRow_def)
  note h = handleEstadoChange_approved [OF nf i appr, of Pendiente]
  show ?thesis
    using h(1) h(2) h(3) h(4)
    by (simp add: post_def eventTitle_def staleWorld_def baseWorld_def anaRow_def
        MS_PER_DAY_def Aprobado_def AprobadoExcepcion_def)
qed


section \<open>The manager's decision\<close>

lemma logAccess_fields:
  "solicitudes (logAccess w) = solicitudes w" "empleados (logAccess w) = empleados w"
  "empHeaders (logAccess w) = empHeaders w" "events (logAccess w) = events w"
  "faults (logAccess w) = faults w" "outbox (logAccess w) = outbox w"
  "lockHeld (logAccess w) = lockHeld w" "idCount (logAccess w) = idCount w"
  "idGen (logAccess w) = idGen w" "activeUser (logAccess w) = activeUser w"
  "managerCache (logAccess w) = managerCache w" "managerRows (logAccess w) = managerRows w"
  by (simp_all add: logAccess_def)

lemma getManagerEmails_ok:
  assumes "faults w = []"
  shows "getManagerEmails w = (Inr (managerList w), w\<lparr>managerCache := managerCacheAfter w\<rparr>)"
  using assms
  by (cases "managerCache w")
    (simp_all add: getManagerEmails_def run getDb_def service_ok managerList_def
      managerCacheAfter_def Let_def)

lemma getEmployeeTotals_ok:
  assumes "faults w = []"
  shows "getEmployeeTotals name w =
           (Inr (totalsOf w name),
            if empleados w = [] then logAccess w else logAccess (logAccess (logAccess w)))"
  using assms
  by (simp add: getEmployeeTotals_def run getDb_def readEmpleados_def service_ok totalsOf_def
      logAccess_fields)

lemma handleEstadoChange_approved_run:
  fixes prev :: string
  assumes "faults w = []" and "i < length (solicitudes w)"
    and "rEstado (solicitudes w ! i) = Aprobado \<or> rEstado (solicitudes w ! i) = AprobadoExcepcion"
  shows "handleEstadoChange (int i + 2) prev w
           = (Inr (), post (handleEstadoChange (int i + 2) prev) w)"
  by (rule prog_result [of "handleEstadoChange (int i + 2) prev" w "Inr ()",
        OF handleEstadoChange_approved(1) [OF assms]])

lemma recalcEmpleados_run:
  assumes "faults w = []"
  shows "recalcEmpleados w = (Inr (), post recalcEmpleados w)"
  by (rule prog_result [of recalcEmpleados w "Inr ()", OF recalcEmpleados_ok(1) [OF assms]])

lemma totalsOf_frame:
  "empleados w' = empleados w \<Longrightarrow> empHeaders w' = empHeaders w \<Longrightarrow> totalsOf w' = totalsOf w"
  by (simp add: totalsOf_def fun_eq_iff)

lemma apiProcessRequest_rejects:
  assumes nf: "faults w = []" and mgr: "activeUser w \<in> set (managerList w)"
    and i: "i < length (solicitudes w)"
    and low: "num_lt (map_option (\<lambda>r. r - daysNumber (rDias (solicitudes w ! i)))
                 (tRemaining (totalsOf w (rEmpleado (solicitudes w ! i))))) (Some 0)"
  shows "fst (apiProcessRequest (int i + 2) Aprobado w) =
           Inl (InsufficientBalance (tRemaining (totalsOf w (rEmpleado (solicitudes w ! i))))
                  (daysNumber (rDias (solicitudes w ! i))))"
    and "solicitudes (snd (apiProcessRequest (int i + 2) Aprobado w)) = solicitudes w"
    and "empleados (snd (apiProcessRequest (int i + 2) Aprobado w)) = empleados w"
    and "events (snd (apiProcessRequest (int i + 2) Aprobado w)) = events w"
    and "outbox (snd (apiProcessRequest (int i + 2) Aprobado w)) = outbox w"
proof -
  let ?w0 = "w\<lparr>managerCache := managerCacheAfter w\<rparr>"
  let ?w3 = "logAccess (logAccess (logAccess ?w0))"
  have t: "totalsOf ?w3 = totalsOf w"
    by (rule totalsOf_frame) (simp_all add: logAccess_fields)
  have run: "apiProcessRequest (int i + 2) Aprobado w =
      (Inl (InsufficientBalance (tRemaining (totalsOf w (rEmpleado (solicitudes w ! i))))
                  (daysNumber (rDias (solicitudes w ! i)))),
       if empleados w = [] then logAccess ?w3 else logAccess (logAccess (logAccess ?w3)))"
    using assms
    by (simp add: apiProcessRequest_def run getManagerEmails_ok getEmployeeTotals_ok
        getDb_def getCell_def service_ok rowIndex_def logAccess_fields
        ENFORCE_BALANCE_BEFORE_EVENT_def t Let_def)
  show "fst (apiProcessRequest (int i + 2) Aprobado w) =
           Inl (InsufficientBalance (tRemaining (totalsOf w (rEmpleado (solicitudes w ! i))))
                  (daysNumber (rDias (solicitudes w ! i))))"
    by (simp add: run)
  show "solicitudes (snd (apiProcessRequest (int i + 2) Aprobado w)) = solicitudes w"
    by (simp add: run logAccess_fields)
  show "empleados (snd (apiProcessRequest (int i + 2) Aprobado w)) = empleados w"
    by (simp add: run logAccess_fields)
  show "events (snd (apiProcessRequest (int i + 2) Aprobado w)) = events w"
    by (simp add: run logAccess_fields)
  show "outbox (snd (apiProcessRequest (int i + 2) Aprobado w)) = outbox w"
    by (simp add: run logAccess_fields)
qed

lemma apiProcessRequest_accepts:
  assumes nf: "faults w = []" and mgr: "activeUser w \<in> set (managerList w)"
    and i: "i < length (solicitudes w)"
    and action: "action = AprobadoExcepcion \<or> action = Aprobado"
    and enough: "action = Aprobado \<longrightarrow>
       \<not> num_lt (map_option (\<lambda>r. r - daysNumber (rDias (solicitudes w ! i)))
             (tRemaining (totalsOf w (rEmpleado (solicitudes w ! i))))) (Some 0)"
  shows "fst (apiProcessRequest (int i + 2) action w) = Inr ()"
    and "rEstado (solicitudes (snd (apiProcessRequest (int i + 2) action w)) ! i) = action"
    and "length (solicitudes (snd (apiProcessRequest (int i + 2) action w)))
           = length (solicitudes w)"
proof -
  let ?w0 = "w\<lparr>managerCache := managerCacheAfter w\<rparr>"
  let ?w3 = "logAccess (logAccess (logAccess ?w0))"
  let ?wc = "if action = Aprobado
             then (if empleados w = [] then logAccess ?w3 else logAccess (logAccess (logAccess ?w3)))
             else ?w3"
  let ?w4 = "logAccess (?wc\<lparr>solicitudes := (solicitudes w)[i := (solicitudes w ! i)\<lparr>rEstado := action\<rparr>]\<rparr>)"
  let ?h = "handleEstadoChange (int i + 2) (rEstado (solicitudes w ! i))"
  let ?w5 = "post ?h ?w4"
  let ?w6 = "post recalcEmpleados ?w5"
  have ne: "AprobadoExcepcion \<noteq> Aprobado"
    by (simp add: AprobadoExcepcion_def Aprobado_def)
  have t: "totalsOf ?w3 = totalsOf w"
    by (rule totalsOf_frame) (simp_all add: logAccess_fields)
  have c: "faults ?wc = []" "solicitudes ?wc = solicitudes w"
    using nf by (simp_all add: logAccess_fields)
  have w4: "faults ?w4 = []" "i < length (solicitudes ?w4)"
    "rEstado (solicitudes ?w4 ! i) = Aprobado \<or> rEstado (solicitudes ?w4 ! i) = AprobadoExcepcion"
    "solicitudes ?w4 = (solicitudes w)[i := (solicitudes w ! i)\<lparr>rEstado := action\<rparr>]"
    using i action c by (auto simp: logAccess_fields)
  have prefix: "apiProcessRequest (int i + 2) action w =
      bnd ?h (\<lambda>_. bnd recalcEmpleados (\<lambda>_.
        bnd (logAudit (AuditManagerAction (int i + 2) action)) (\<lambda>_. ret ()))) ?w4"
    using nf mgr i action enough ne
    by (auto simp: apiProcessRequest_def run getManagerEmails_ok getEmployeeTotals_ok
        getDb_def getCell_def setCell_def service_ok rowIndex_def logAccess_fields
        ENFORCE_BALANCE_BEFORE_EVENT_def t Let_def)
  have h: "?h ?w4 = (Inr (), ?w5)"
    by (rule handleEstadoChange_approved_run [OF w4(1) w4(2) w4(3)])
  note hp = handleEstadoChange_approved [OF w4(1) w4(2) w4(3), of "rEstado (solicitudes w ! i)"]
  have w5: "faults ?w5 = []" by (rule hp(5))
  have r: "recalcEmpleados ?w5 = (Inr (), ?w6)"
    by (rule recalcEmpleados_run [OF w5])
  note rp = recalcEmpleados_ok [OF w5]
  have final: "apiProcessRequest (int i + 2) action w =
      (Inr (), ?w6\<lparr>auditLog := auditLog ?w6 @ [AuditManagerAction (int i + 2) action]\<rparr>)"
    unfolding prefix
    using rp(4) by (simp add: run h r logAudit_def service_ok)
  show "fst (apiProcessRequest (int i + 2) action w) = Inr ()"
    by (simp add: final)
  have sol: "solicitudes (snd (apiProcessRequest (int i + 2) action w)) =
      (solicitudes ?w4)[i := (solicitudes ?w4 ! i)\<lparr>rEventId :=
         (if rEventId (solicitudes ?w4 ! i) \<noteq> '''' \<and> events ?w4 (rEventId (solicitudes ?w4 ! i)) \<noteq> None
          then rEventId (solicitudes ?w4 ! i) else idGen ?w4 (idCount ?w4))\<rparr>]"
    unfolding final using rp(3) hp(2) by simp
  show "rEstado (solicitudes (snd (apiProcessRequest (int i + 2) action w)) ! i) = action"
    unfolding sol using i by (simp add: w4(4))
  show "length (solicitudes (snd (apiProcessRequest (int i + 2) action w)))
           = length (solicitudes w)"
    unfolding sol by (simp add: w4(4))
qed

lemma negative_remaining:
  "num_lt (map_option (\<lambda>r. r - dias) remaining) (Some 0)
     \<longleftrightarrow> (\<exists>r. remaining = Some r \<and> r - dias < 0)"
  by (cases remaining) simp_all

text \<open>
  Claim C4. Balance enforcement is switched on (\<open>ENFORCE_BALANCE_BEFORE_EVENT\<close>). When the
  services respond, the caller is a manager and the row exists: a decision \<open>Aprobado\<close> for
  a request whose business days exceed the employee's remaining days fails with the
  insufficient-balance error that names the remaining and the requested days, and writes
  neither the status nor anything else to the sheets or the calendar; with enough balance
  the decision is written. A decision \<open>Aprobado (Excepci\<oacute>n)\<close> succeeds and is written
  whatever the balance.
\<close>

theorem apiProcessRequest_balance_check:
  "faults w = [] \<and> activeUser w \<in> set (managerList w) \<and> i < length (solicitudes w) \<longrightarrow>
   (let x = solicitudes w ! i;
        dias = daysNumber (rDias x);
        remaining = tRemaining (totalsOf w (rEmpleado x))
    in ((\<exists>r. remaining = Some r \<and> r - dias < 0) \<longrightarrow>
          fst (apiProcessRequest (int i + 2) Aprobado w)
            = Inl (InsufficientBalance remaining dias)
          \<and> solicitudes (snd (apiProcessRequest (int i + 2) Aprobado w)) = solicitudes w
          \<and> empleados (snd (apiProcessRequest (int i + 2) Aprobado w)) = empleados w
          \<and> events (snd (apiProcessRequest (int i + 2) Aprobado w)) = events w
          \<and> outbox (snd (apiProcessRequest (int i + 2) Aprobado w)) = outbox w)
       \<and> (\<not> (\<exists>r. remaining = Some r \<and> r - dias < 0) \<longrightarrow>
          fst (apiProcessRequest (int i + 2) Aprobado w) = Inr ()
          \<and> rEstado (solicitudes (snd (apiProcessRequest (int i + 2) Aprobado w)) ! i)
              = Aprobado)
       \<and> fst (apiProcessRequest (int i + 2) AprobadoExcepcion w) = Inr ()
       \<and> rEstado (solicitudes (snd (apiProcessRequest (int i + 2) AprobadoExcepcion w)) ! i)
           = AprobadoExcepcion)"
proof (intro impI, elim conjE)
  assume nf: "faults w = []" and mgr: "activeUser w \<in> set (managerList w)"
    and i: "i < length (solicitudes w)"
  let ?x = "solicitudes w ! i"
  let ?dias = "daysNumber (rDias ?x)"
  let ?rem = "tRemaining (totalsOf w (rEmpleado ?x))"
  have rej: "(\<exists>r. ?rem = Some r \<and> r - ?dias < 0) \<longrightarrow>
          fst (apiProcessRequest (int i + 2) Aprobado w)
            = Inl (InsufficientBalance ?rem ?dias)
          \<and> solicitudes (snd (apiProcessRequest (int i + 2) Aprobado w)) = solicitudes w
          \<and> empleados (snd (apiProcessRequest (int i + 2) Aprobado w)) = empleados w
          \<and> events (snd (apiProcessRequest (int i + 2) Aprobado w)) = events w
          \<and> outbox (snd (apiProcessRequest (int i + 2) Aprobado w)) = outbox w"
  proof
    assume "\<exists>r. ?rem = Some r \<and> r - ?dias < 0"
    then have low: "num_lt (map_option (\<lambda>r. r - ?dias) ?rem) (Some 0)"
      by (simp add: negative_remaining)
    from apiProcessRequest_rejects [OF nf mgr i low]
    show "fst (apiProcessRequest (int i + 2) Aprobado w)
            = Inl (InsufficientBalance ?rem ?dias)
          \<and> solicitudes (snd (apiProcessRequest (int i + 2) Aprobado w)) = solicitudes w
          \<and> empleados (snd (apiProcessRequest (int i + 2) Aprobado w)) = empleados w
          \<and> events (snd (apiProcessRequest (int i + 2) Aprobado w)) = events w
          \<and> outbox (snd (apiProcessRequest (int i + 2) Aprobado w)) = outbox w"
      by simp
  qed
  have acc: "\<not> (\<exists>r. ?rem = Some r \<and> r - ?dias < 0) \<longrightarrow>
          fst (apiProcessRequest (int i + 2) Aprobado w) = Inr ()
          \<and> rEstado (solicitudes (snd (apiProcessRequest (int i + 2) Aprobado w)) ! i)
              = Aprobado"
  proof
    assume "\<not> (\<exists>r. ?rem = Some r \<and> r - ?dias < 0)"
    then have enough: "Aprobado = Aprobado \<longrightarrow>
        \<not> num_lt (map_option (\<lambda>r. r - ?dias) ?rem) (Some 0)"
      by (simp add: negative_remaining)
    have a: "Aprobado = AprobadoExcepcion \<or> Aprobado = Aprobado" by simp
    from apiProcessRequest_accepts(1,2) [OF nf mgr i a enough]
    show "fst (apiProcessRequest (int i + 2) Aprobado w) = Inr ()
          \<and> rEstado (solicitudes (snd (apiProcessRequest (int i + 2) Aprobado w)) ! i)
              = Aprobado"
      by simp
  qed
  have ne: "AprobadoExcepcion \<noteq> Aprobado"
    by (simp add: AprobadoExcepcion_def Aprobado_def)
  have a: "AprobadoExcepcion = AprobadoExcepcion \<or> AprobadoExcepcion = Aprobado" by simp
  have e: "AprobadoExcepcion = Aprobado \<longrightarrow>
        \<not> num_lt (map_option (\<lambda>r. r - ?dias) ?rem) (Some 0)"
    using ne by simp
  from apiProcessRequest_accepts(1,2) [OF nf mgr i a e]
  have exc: "fst (apiProcessRequest (int i + 2) AprobadoExcepcion w) = Inr ()
       \<and> rEstado (solicitudes (snd (apiProcessRequest (int i + 2) AprobadoExcepcion w)) ! i)
           = AprobadoExcepcion"
    by simp
  from rej acc exc show "let x = solicitudes w ! i;
        dias = daysNumber (rDias x);
        remaining = tRemaining (totalsOf w (rEmpleado x))
    in ((\<exists>r. remaining = Some r \<and> r - dias < 0) \<longrightarrow>
          fst (apiProcessRequest (int i + 2) Aprobado w)
            = Inl (InsufficientBalance remaining dias)
          \<and> solicitudes (snd (apiProcessRequest (int i + 2) Aprobado w)) = solicitudes w
          \<and> empleados (snd (apiProcessRequest (int i + 2) Aprobado w)) = empleados w
          \<and> events (snd (apiProcessRequest (int i + 2) Aprobado w)) = events w
          \<and> outbox (snd (apiProcessRequest (int i + 2) Aprobado w)) = outbox w)
       \<and> (\<not> (\<exists>r. remaining = Some r \<and> r - dias < 0) \<longrightarrow>
          fst (apiProcessRequest (int i + 2) Aprobado w) = Inr ()
          \<and> rEstado (solicitudes (snd (apiProcessRequest (int i + 2) Aprobado w)) ! i)
              = Aprobado)
       \<and> fst (apiProcessRequest (int i + 2) AprobadoExcepcion w) = Inr ()
       \<and> rEstado (solicitudes (snd (apiProcessRequest (int i + 2) AprobadoExcepcion w)) ! i)
           = AprobadoExcepcion"
    unfolding Let_def by blast
qed

text \<open>
  Ana has 2 days left and asks for 5: the manager's \<open>Aprobado\<close> is refused and nothing is
  written, the manager's \<open>Aprobado (Excepci\<oacute>n)\<close> goes through. With 10 days left the
  manager's \<open>Aprobado\<close> goes through as well.
\<close>

theorem apiProcessRequest_balance_check_witness:
  "faults decisionWorld = []
   \<and> activeUser decisionWorld \<in> set (managerList decisionWorld)
   \<and> (0::nat) < length (solicitudes decisionWorld)
   \<and> fst (apiProcessRequest 2 Aprobado decisionWorld) = Inl (InsufficientBalance (Some 2) 5)
   \<and> solicitudes (snd (apiProcessRequest 2 Aprobado decisionWorld)) = solicitudes decisionWorld
   \<and> fst (apiProcessRequest 2 AprobadoExcepcion decisionWorld) = Inr ()
   \<and> rEstado (solicitudes (snd (apiProcessRequest 2 AprobadoExcepcion decisionWorld)) ! 0)
       = AprobadoExcepcion
   \<and> faults managerWorld = []
   \<and> activeUser managerWorld \<in> set (managerList managerWorld)
   \<and> (0::nat) < length (solicitudes managerWorld)
   \<and> fst (apiProcessRequest 2 Aprobado managerWorld) = Inr ()
   \<and> rEstado (solicitudes (snd (apiProcessRequest 2 Aprobado managerWorld)) ! 0) = Aprobado"
proof -
  have pre: "faults decisionWorld = []
     \<and> activeUser decisionWorld \<in> set (managerList decisionWorld)
     \<and> (0::nat) < length (solicitudes decisionWorld)"
    by (simp add: decisionWorld_def baseWorld_def managerList_def trim_def isWhiteSpace_def)
  have lower: "toLowerCase (trim ''Ana'') = ''ana''"
    by code_simp
  have rem: "tRemaining (totalsOf decisionWorld (rEmpleado (solicitudes decisionWorld ! 0)))
      = Some 2"
    by (simp add: decisionWorld_def baseWorld_def anaRow_def anaEmployee_def totalsOf_def lower)
  have dias: "daysNumber (rDias (solicitudes decisionWorld ! 0)) = 5"
    by (simp add: decisionWorld_def baseWorld_def anaRow_def daysNumber_def)
  from apiProcessRequest_balance_check [of decisionWorld 0] pre rem dias
  have first: "fst (apiProcessRequest 2 Aprobado decisionWorld) = Inl (InsufficientBalance (Some 2) 5)
   \<and> solicitudes (snd (apiProcessRequest 2 Aprobado decisionWorld)) = solicitudes decisionWorld
   \<and> fst (apiProcessRequest 2 AprobadoExcepcion decisionWorld) = Inr ()
   \<and> rEstado (solicitudes (snd (apiProcessRequest 2 AprobadoExcepcion decisionWorld)) ! 0)
       = AprobadoExcepcion"
    by (simp add: Let_def)
  have pre2: "faults managerWorld = []
     \<and> activeUser managerWorld \<in> set (managerList managerWorld)
     \<and> (0::nat) < length (solicitudes managerWorld)"
    by (simp add: managerWorld_def baseWorld_def managerList_def trim_def isWhiteSpace_def)
  have rem2: "tRemaining (totalsOf managerWorld (rEmpleado (solicitudes managerWorld ! 0)))
      = Some 10"
    by (simp add: managerWorld_def baseWorld_def anaRow_def anaEmployee_def totalsOf_def lower)
  have dias2: "daysNumber (rDias (solicitudes managerWorld ! 0)) = 5"
    by (simp add: managerWorld_def baseWorld_def anaRow_def daysNumber_def)
  from apiProcessRequest_balance_check [of managerWorld 0] pre2 rem2 dias2
  have second: "fst (apiProcessRequest 2 Aprobado managerWorld) = Inr ()
   \<and> rEstado (solicitudes (snd (apiProcessRequest 2 Aprobado managerWorld)) ! 0) = Aprobado"
    by (simp add: Let_def)
  from pre first pre2 second show ?thesis by blast
qed


section \<open>Cancelling a request\<close>

lemma findOwnRequest_at:
  "i < length xs \<Longrightarrow>
   findOwnRequest xs r (r + int i + 1) u
     = (toLowerCase (trim (rEmail (xs ! i))) = toLowerCase u, rEstado (xs ! i))"
proof (induction xs arbitrary: r i)
  case Nil
  then show ?case by simp
next
  case (Cons x xs)
  show ?case
  proof (cases i)
    case 0
    then show ?thesis by simp
  next
    case (Suc k)
    with Cons.prems have k: "k < length xs" by simp
    have "r + int (Suc k) + 1 = (r + 1) + int k + 1" by simp
    with Cons.IH [OF k, of "r + 1"] Suc show ?thesis by simp
  qed
qed

lemma findOwnRequest_row:
  "i < length xs \<Longrightarrow>
   findOwnRequest xs 1 (int i + 2) u
     = (toLowerCase (trim (rEmail (xs ! i))) = toLowerCase u, rEstado (xs ! i))"
  using findOwnRequest_at [of i xs 1 u] by (simp add: add.commute)

lemma apiCancelRequest_all_services:
  assumes nf: "faults w = []"
    and rate: "rateCache w (CancelRequestAction, activeUser w) < 3" and lock: "lockFree w"
    and i: "i < length (solicitudes w)"
    and own: "toLowerCase (trim (rEmail (solicitudes w ! i))) = toLowerCase (activeUser w)"
    and st: "rEstado (solicitudes w ! i) = Pendiente \<or> rEstado (solicitudes w ! i) = NecesitaRevision"
    and ref: "rEventId (solicitudes w ! i) \<noteq> ''''"
  shows "fst (apiCancelRequest (int i + 2) w) = Inr ()"
    and "solicitudes (snd (apiCancelRequest (int i + 2) w))
           = (solicitudes w)[i := (solicitudes w ! i)\<lparr>rEstado := Cancelado, rEventId := ''''\<rparr>]"
    and "events (snd (apiCancelRequest (int i + 2) w))
           = (events w)(rEventId (solicitudes w ! i) := None)"
    and "lockHeld (snd (apiCancelRequest (int i + 2) w)) = False"
  using assms
  by (auto simp: apiCancelRequest_def run checkRateLimit_def waitLock_def releaseLock_def
      findOwnRequest_row getDb_def readSolicitudes_def getCell_def setCell_def getCalendar_def
      getEventById_def deleteEvent_def logAudit_def service_ok rowIndex_def logAccess_fields
      logAccess_def Let_def recalcEmpleados_run recalcEmpleados_ok(3,4,5,6)
      split: option.splits)

lemma apiCancelRequest_calendar_fails:
  assumes fl: "faults w = [False, False, False, False, True]
               \<or> faults w = [False, False, False, False, False, True]
               \<or> (events w (rEventId (solicitudes w ! i)) \<noteq> None
                  \<and> faults w = [False, False, False, False, False, False, True])"
    and rate: "rateCache w (CancelRequestAction, activeUser w) < 3" and lock: "lockFree w"
    and i: "i < length (solicitudes w)"
    and own: "toLowerCase (trim (rEmail (solicitudes w ! i))) = toLowerCase (activeUser w)"
    and st: "rEstado (solicitudes w ! i) = Pendiente \<or> rEstado (solicitudes w ! i) = NecesitaRevision"
    and ref: "rEventId (solicitudes w ! i) \<noteq> ''''"
  shows "fst (apiCancelRequest (int i + 2) w) = Inr ()"
    and "solicitudes (snd (apiCancelRequest (int i + 2) w))
           = (solicitudes w)[i := (solicitudes w ! i)\<lparr>rEstado := Cancelado\<rparr>]"
    and "events (snd (apiCancelRequest (int i + 2) w)) = events w"
    and "lockHeld (snd (apiCancelRequest (int i + 2) w)) = False"
  using assms
  by (auto simp: apiCancelRequest_def run checkRateLimit_def waitLock_def releaseLock_def
      findOwnRequest_row getDb_def readSolicitudes_def getCell_def setCell_def getCalendar_def
      getEventById_def deleteEvent_def logAudit_def service_def rowIndex_def logAccess_fields
      logAccess_def Let_def recalcEmpleados_run recalcEmpleados_ok(3,4,5,6)
      split: option.splits)

text \<open>
  Claim C8, as amended. The owner cancels a pending (or under-review) request that holds
  a calendar event reference, the rate limit and the lock permitting. When every service
  responds, the status becomes \<open>Cancelado\<close>, the event is deleted and the reference is
  cleared. When one of the calendar calls (\<open>getCalendar_\<close>, \<open>getEventById\<close>,
  \<open>deleteEvent\<close>) raises an exception, the exception is swallowed and the call still
  succeeds with status \<open>Cancelado\<close>, but the reference stays in the row and the calendar
  is unchanged.
\<close>

theorem apiCancelRequest_event_reference:
  "rateCache w (CancelRequestAction, activeUser w) < 3 \<and> lockFree w
   \<and> i < length (solicitudes w)
   \<and> toLowerCase (trim (rEmail (solicitudes w ! i))) = toLowerCase (activeUser w)
   \<and> (rEstado (solicitudes w ! i) = Pendiente \<or> rEstado (solicitudes w ! i) = NecesitaRevision)
   \<and> rEventId (solicitudes w ! i) \<noteq> ''''
   \<longrightarrow>
     (faults w = [] \<longrightarrow>
        fst (apiCancelRequest (int i + 2) w) = Inr ()
        \<and> solicitudes (snd (apiCancelRequest (int i + 2) w))
            = (solicitudes w)[i := (solicitudes w ! i)\<lparr>rEstado := Cancelado, rEventId := ''''\<rparr>]
        \<and> events (snd (apiCancelRequest (int i + 2) w))
            = (events w)(rEventId (solicitudes w ! i) := None))
     \<and> (faults w = [False, False, False, False, True]
          \<or> faults w = [False, False, False, False, False, True]
          \<or> (events w (rEventId (solicitudes w ! i)) \<noteq> None
             \<and> faults w = [False, False, False, False, False, False, True])
        \<longrightarrow>
        fst (apiCancelRequest (int i + 2) w) = Inr ()
        \<and> solicitudes (snd (apiCancelRequest (int i + 2) w))
            = (solicitudes w)[i := (solicitudes w ! i)\<lparr>rEstado := Cancelado\<rparr>]
        \<and> events (snd (apiCancelRequest (int i + 2) w)) = events w)"
proof (intro impI conjI; elim conjE)
  assume pre: "rateCache w (CancelRequestAction, activeUser w) < 3" "lockFree w"
    "i < length (solicitudes w)"
    "toLowerCase (trim (rEmail (solicitudes w ! i))) = toLowerCase (activeUser w)"
    "rEstado (solicitudes w ! i) = Pendiente \<or> rEstado (solicitudes w ! i) = NecesitaRevision"
    "rEventId (solicitudes w ! i) \<noteq> ''''"
  {
    assume nf: "faults w = []"
    note ok = apiCancelRequest_all_services [OF nf pre]
    show "fst (apiCancelRequest (int i + 2) w) = Inr ()" by (rule ok(1))
    show "solicitudes (snd (apiCancelRequest (int i + 2) w))
            = (solicitudes w)[i := (solicitudes w ! i)\<lparr>rEstado := Cancelado, rEventId := ''''\<rparr>]"
      by (rule ok(2))
    show "events (snd (apiCancelRequest (int i + 2) w))
            = (events w)(rEventId (solicitudes w ! i) := None)"
      by (rule ok(3))
  }
  {
    assume fl: "faults w = [False, False, False, False, True]
          \<or> faults w = [False, False, False, False, False, True]
          \<or> (events w (rEventId (solicitudes w ! i)) \<noteq> None
             \<and> faults w = [False, False, False, False, False, False, True])"
    note ko = apiCancelRequest_calendar_fails [OF fl pre]
    show "fst (apiCancelRequest (int i + 2) w) = Inr ()" by (rule ko(1))
    show "solicitudes (snd (apiCancelRequest (int i + 2) w))
            = (solicitudes w)[i := (solicitudes w ! i)\<lparr>rEstado := Cancelado\<rparr>]"
      by (rule ko(2))
    show "events (snd (apiCancelRequest (int i + 2) w)) = events w" by (rule ko(3))
  }
qed

text \<open>
  Ana cancels her pending request with the event \<open>ev1\<close>. When every service responds, the
  request is cancelled, the event deleted and the reference cleared; when the calendar
  cannot be opened, the request is cancelled all the same and the reference stays.
\<close>

theorem apiCancelRequest_event_reference_witness:
  "rateCache cancelWorld (CancelRequestAction, activeUser cancelWorld) < 3
   \<and> lockFree cancelWorld \<and> (0::nat) < length (solicitudes cancelWorld)
   \<and> toLowerCase (trim (rEmail (solicitudes cancelWorld ! 0))) = toLowerCase (activeUser cancelWorld)
   \<and> rEstado (solicitudes cancelWorld ! 0) = Pendiente
   \<and> rEventId (solicitudes cancelWorld ! 0) = ''ev1''
   \<and> faults cancelWorld = []
   \<and> fst (apiCancelRequest 2 cancelWorld) = Inr ()
   \<and> rEstado (solicitudes (snd (apiCancelRequest 2 cancelWorld)) ! 0) = Cancelado
   \<and> rEventId (solicitudes (snd (apiCancelRequest 2 cancelWorld)) ! 0) = []
   \<and> events (snd (apiCancelRequest 2 cancelWorld)) ''ev1'' = None
   \<and> faults cancelNoCalendarWorld = [False, False, False, False, True]
   \<and> fst (apiCancelRequest 2 cancelNoCalendarWorld) = Inr ()
   \<and> rEstado (solicitudes (snd (apiCancelRequest 2 cancelNoCalendarWorld)) ! 0) = Cancelado
   \<and> rEventId (solicitudes (snd (apiCancelRequest 2 cancelNoCalendarWorld)) ! 0) = ''ev1''"
proof -
  have own: "toLowerCase (trim (rEmail (solicitudes cancelWorld ! 0)))
      = toLowerCase (activeUser cancelWorld)"
    by code_simp
  have pre: "rateCache cancelWorld (CancelRequestAction, activeUser cancelWorld) < 3
     \<and> lockFree cancelWorld \<and> (0::nat) < length (solicitudes cancelWorld)
     \<and> rEstado (solicitudes cancelWorld ! 0) = Pendiente
     \<and> rEventId (solicitudes cancelWorld ! 0) = ''ev1''
     \<and> faults cancelWorld = []"
    by (simp add: cancelWorld_def baseWorld_def anaRow_def)
  from apiCancelRequest_event_reference [of cancelWorld 0] own pre
  have "fst (apiCancelRequest 2 cancelWorld) = Inr ()
     \<and> solicitudes (snd (apiCancelRequest 2 cancelWorld))
         = (solicitudes cancelWorld)[0 := (solicitudes cancelWorld ! 0)
              \<lparr>rEstado := Cancelado, rEventId := []\<rparr>]
     \<and> events (snd (apiCancelRequest 2 cancelWorld))
         = (events cancelWorld)(rEventId (solicitudes cancelWorld ! 0) := None)"
    by simp
  with own pre have first: "fst (apiCancelRequest 2 cancelWorld) = Inr ()
     \<and> rEstado (solicitudes (snd (apiCancelRequest 2 cancelWorld)) ! 0) = Cancelado
     \<and> rEventId (solicitudes (snd (apiCancelRequest 2 cancelWorld)) ! 0) = []
     \<and> events (snd (apiCancelRequest 2 cancelWorld)) ''ev1'' = None"
    by (simp add: cancelWorld_def baseWorld_def anaRow_def)
  have own2: "toLowerCase (trim (rEmail (solicitudes cancelNoCalendarWorld ! 0)))
      = toLowerCase (activeUser cancelNoCalendarWorld)"
    by code_simp
  have pre2: "rateCache cancelNoCalendarWorld (CancelRequestAction, activeUser cancelNoCalendarWorld) < 3
     \<and> lockFree cancelNoCalendarWorld \<and> (0::nat) < length (solicitudes cancelNoCalendarWorld)
     \<and> rEstado (solicitudes cancelNoCalendarWorld ! 0) = Pendiente
     \<and> rEventId (solicitudes cancelNoCalendarWorld ! 0) = ''ev1''
     \<and> faults cancelNoCalendarWorld = [False, False, False, False, True]"
    by (simp add: cancelNoCalendarWorld_def cancelWorld_def baseWorld_def anaRow_def)
  from apiCancelRequest_event_reference [of cancelNoCalendarWorld 0] own2 pre2
  have "fst (apiCancelRequest 2 cancelNoCalendarWorld) = Inr ()
     \<and> solicitudes (snd (apiCancelRequest 2 cancelNoCalendarWorld))
         = (solicitudes cancelNoCalendarWorld)[0 := (solicitudes cancelNoCalendarWorld ! 0)
              \<lparr>rEstado := Cancelado\<rparr>]"
    by simp
  with pre2 have second: "fst (apiCancelRequest 2 cancelNoCalendarWorld) = Inr ()
     \<and> rEstado (solicitudes (snd (apiCancelRequest 2 cancelNoCalendarWorld)) ! 0) = Cancelado
     \<and> rEventId (solicitudes (snd (apiCancelRequest 2 cancelNoCalendarWorld)) ! 0) = ''ev1''"
    by (simp add: cancelNoCalendarWorld_def cancelWorld_def baseWorld_def anaRow_def)
  from own pre first pre2 second show ?thesis by blast
qed

text \<open>
  Claim C8 as stated fails: when \<open>ev.deleteEvent()\<close> raises an exception, the request is
  cancelled and the call succeeds, but the reference \<open>ev1\<close> is still in the row.
\<close>

theorem apiCancelRequest_reference_kept_counterexample:
  "rEstado (solicitudes cancelFaultWorld ! 0) = Pendiente
   \<and> rEventId (solicitudes cancelFaultWorld ! 0) = ''ev1''
   \<and> fst (apiCancelRequest 2 cancelFaultWorld) = Inr ()
   \<and> rEstado (solicitudes (snd (apiCancelRequest 2 cancelFaultWorld)) ! 0) = Cancelado
   \<and> rEventId (solicitudes (snd (apiCancelRequest 2 cancelFaultWorld)) ! 0) = ''ev1''
   \<and> events (snd (apiCancelRequest 2 cancelFaultWorld)) ''ev1'' = events cancelFaultWorld ''ev1''
   \<and> events cancelFaultWorld ''ev1'' \<noteq> None"
  by code_simp

text \<open>
  Claim C3 against the code: the manager \<open>boss@corp.com\<close>, who is on the manager roster
  but is not the requester, cancels Ana's pending request. The ownership check of
  \<open>apiCancelRequest\<close> compares the caller with the requester only, so the call ends with
  "Request not found or permission denied" and the row stays as it was.
\<close>

theorem apiCancelRequest_manager_denied:
  "activeUser managerWorld \<in> set (managerList managerWorld)
   \<and> rEstado (solicitudes managerWorld ! 0) = Pendiente
   \<and> fst (apiCancelRequest 2 managerWorld) = Inl NotFoundOrDenied
   \<and> solicitudes (snd (apiCancelRequest 2 managerWorld)) = solicitudes managerWorld"
  by code_simp

lemma apiCancelRequest_not_owner:
  assumes "faults w = []"
    and "rateCache w (CancelRequestAction, activeUser w) < 3" and "lockFree w"
    and "i < length (solicitudes w)"
    and "toLowerCase (trim (rEmail (solicitudes w ! i))) \<noteq> toLowerCase (activeUser w)"
  shows "fst (apiCancelRequest (int i + 2) w) = Inl NotFoundOrDenied"
    and "solicitudes (snd (apiCancelRequest (int i + 2) w)) = solicitudes w"
  using assms
  by (simp_all add: apiCancelRequest_def run checkRateLimit_def waitLock_def releaseLock_def
      findOwnRequest_row getDb_def readSolicitudes_def service_ok logAccess_fields Let_def)

lemma apiCancelRequest_wrong_status:
  assumes "faults w = []"
    and "rateCache w (CancelRequestAction, activeUser w) < 3" and "lockFree w"
    and "i < length (solicitudes w)"
    and "toLowerCase (trim (rEmail (solicitudes w ! i))) = toLowerCase (activeUser w)"
    and "rEstado (solicitudes w ! i) \<noteq> Pendiente"
    and "rEstado (solicitudes w ! i) \<noteq> NecesitaRevision"
  shows "fst (apiCancelRequest (int i + 2) w) = Inl (CannotCancel (rEstado (solicitudes w ! i)))"
    and "solicitudes (snd (apiCancelRequest (int i + 2) w)) = solicitudes w"
  using assms
  by (simp_all add: apiCancelRequest_def run checkRateLimit_def waitLock_def releaseLock_def
      findOwnRequest_row getDb_def readSolicitudes_def service_ok logAccess_fields Let_def)


section \<open>Row processing, create and edit\<close>

lemma processRequestRow_total:
  "\<exists>d w'. processRequestRow row w = (Inr d, w')
           \<and> d = (varUserNotified w', varManagersNotified w')"
proof -
  let ?w0 = "w\<lparr>varUserNotified := NotAttempted, varManagersNotified := NotAttempted\<rparr>"
  obtain r w1 where body: "processRequestRowBody row ?w0 = (r, w1)"
    by (cases "processRequestRowBody row ?w0") blast
  show ?thesis
    by (cases r) (simp_all add: processRequestRow_def run body)
qed

lemma logAudit_total: "\<exists>w'. logAudit a w = (Inr (), w')"
proof (cases "faults w")
  case Nil
  then show ?thesis by (simp add: logAudit_def run service_ok)
next
  case (Cons b bs)
  then show ?thesis by (cases b) (simp_all add: logAudit_def run service_def)
qed

lemma apiCreateRequest_after_insert:
  assumes rate: "rateCache w (CreateRequestAction, activeUser w) < 5" and lock: "lockFree w"
    and ins: "fst (createInsert (activeUser w) startObj endObj (entered CreateRequestAction w))
                = Inr newRow"
  shows "\<exists>d. fst (apiCreateRequest startObj endObj w) = Inr d"
proof -
  let ?w0 = "entered CreateRequestAction w"
  obtain w1 where w1: "createInsert (activeUser w) startObj endObj ?w0 = (Inr newRow, w1)"
    using ins by (cases "createInsert (activeUser w) startObj endObj ?w0") simp
  obtain d w2 where w2: "processRequestRow newRow w1 = (Inr d, w2)"
    using processRequestRow_total [of newRow w1] by blast
  obtain w3 where w3: "logAudit (AuditCreate newRow) w2 = (Inr (), w3)"
    using logAudit_total [of "AuditCreate newRow" w2] by blast
  have "apiCreateRequest startObj endObj w = (Inr d, releaseLock w3)"
    using rate lock w1 w2 w3
    by (simp add: apiCreateRequest_def run checkRateLimit_def waitLock_def entered_def Let_def)
  then show ?thesis by simp
qed

lemma apiEditRequest_after_update:
  assumes rate: "rateCache w (EditRequestAction, activeUser w) < 10" and lock: "lockFree w"
    and row: "rowIndex (solicitudes w) rowId \<noteq> None"
    and fl: "faults w = [] \<or> (\<exists>fs. faults w = False # False # False # False # fs)"
  shows "fst (apiEditRequest rowId startObj endObj w) = Inr ()"
proof -
  obtain i where i: "rowIndex (solicitudes w) rowId = Some i"
    using row by blast
  then have il: "i < length (solicitudes w)" "rowId = int i + 2"
    by (simp_all add: rowIndex_Some)
  let ?rest = "bnd (processRequestRow rowId) (\<lambda>_. bnd (logAudit (AuditEdit rowId)) (\<lambda>_. ret ()))"
  have tail: "\<exists>w'. ?rest w1 = (Inr (), w')" for w1
  proof -
    obtain d w2 where w2: "processRequestRow rowId w1 = (Inr d, w2)"
      using processRequestRow_total [of rowId w1] by blast
    obtain w3 where w3: "logAudit (AuditEdit rowId) w2 = (Inr (), w3)"
      using logAudit_total [of "AuditEdit rowId" w2] by blast
    show ?thesis by (simp add: run w2 w3)
  qed
  have "\<exists>w1. apiEditRequest rowId startObj endObj w
            = (case ?rest w1 of (r, w') \<Rightarrow> (r, releaseLock w'))"
    using fl
  proof
    assume "faults w = []"
    with rate lock il show ?thesis
      by (auto simp: apiEditRequest_def run checkRateLimit_def waitLock_def Let_def
          getDb_def setCell_def service_ok rowIndex_def logAccess_fields logAccess_def)
  next
    assume "\<exists>fs. faults w = False # False # False # False # fs"
    then obtain fs where "faults w = False # False # False # False # fs" ..
    with rate lock il show ?thesis
      by (auto simp: apiEditRequest_def run checkRateLimit_def waitLock_def Let_def
          getDb_def setCell_def service_def rowIndex_def logAccess_fields logAccess_def)
  qed
  then obtain w1 where e: "apiEditRequest rowId startObj endObj w
            = (case ?rest w1 of (r, w') \<Rightarrow> (r, releaseLock w'))" ..
  from tail [of w1] obtain w' where "?rest w1 = (Inr (), w')" ..
  with e show ?thesis by simp
qed

text \<open>
  Claim C10. \<open>processRequestRow_\<close> never ends with an error, whatever the row and whichever
  service calls fail: it returns the two notification outcomes as they stand. Hence
  \<open>apiCreateRequest\<close> reports success whenever the validation and the insert of the row
  went through, and \<open>apiEditRequest\<close> reports success whenever the row exists and its
  first four service calls (the database handle and the three writes) went through,
  whatever happens inside row processing afterwards.
\<close>

theorem processRequestRow_never_throws:
  "(\<exists>d w'. processRequestRow row w = (Inr d, w')
            \<and> d = (varUserNotified w', varManagersNotified w'))
   \<and> (rateCache w (CreateRequestAction, activeUser w) < 5 \<and> lockFree w
        \<and> fst (createInsert (activeUser w) startObj endObj (entered CreateRequestAction w))
             = Inr newRow
        \<longrightarrow> (\<exists>d. fst (apiCreateRequest startObj endObj w) = Inr d))
   \<and> (rateCache w (EditRequestAction, activeUser w) < 10 \<and> lockFree w
        \<and> rowIndex (solicitudes w) rowId \<noteq> None
        \<and> (faults w = [] \<or> (\<exists>fs. faults w = False # False # False # False # fs))
        \<longrightarrow> fst (apiEditRequest rowId startObj endObj w) = Inr ())"
  using processRequestRow_total [of row w]
    apiCreateRequest_after_insert [of w startObj endObj newRow]
    apiEditRequest_after_update [of w rowId startObj endObj]
  by blast

text \<open>
  Ana creates a request for Monday to Friday; validation and insert go through (new row
  2), then row processing fails part-way with a database error after it has written the
  business days: nothing is notified and still the call reports success. Eve's edit of
  row 2 reports success although row processing fails at its first read.
\<close>

theorem processRequestRow_never_throws_witness:
  "rateCache createFaultWorld (CreateRequestAction, activeUser createFaultWorld) < 5
   \<and> lockFree createFaultWorld
   \<and> fst (createInsert (activeUser createFaultWorld) (LocalTime 1741003200000)
            (LocalTime 1741348800000) (entered CreateRequestAction createFaultWorld)) = Inr 2
   \<and> fst (processRequestRowBody 2
            (snd (createInsert (activeUser createFaultWorld) (LocalTime 1741003200000)
                    (LocalTime 1741348800000) (entered CreateRequestAction createFaultWorld))))
       = Inl DatabaseError
   \<and> (\<exists>d. fst (apiCreateRequest (LocalTime 1741003200000) (LocalTime 1741348800000)
                 createFaultWorld) = Inr d)
   \<and> fst (apiCreateRequest (LocalTime 1741003200000) (LocalTime 1741348800000)
            createFaultWorld) = Inr (NotAttempted, NotAttempted)
   \<and> rateCache editFaultWorld (EditRequestAction, activeUser editFaultWorld) < 10
   \<and> lockFree editFaultWorld
   \<and> rowIndex (solicitudes editFaultWorld) 2 \<noteq> None
   \<and> faults editFaultWorld = False # False # False # False # [True]
   \<and> fst (apiEditRequest 2 (LocalTime 1744027200000) (LocalTime 1744372800000)
            editFaultWorld) = Inr ()"
proof -
  have c1: "rateCache createFaultWorld (CreateRequestAction, activeUser createFaultWorld) < 5
      \<and> lockFree createFaultWorld"
    by (simp add: createFaultWorld_def baseWorld_def)
  have c2: "fst (createInsert (activeUser createFaultWorld) (LocalTime 1741003200000)
            (LocalTime 1741348800000) (entered CreateRequestAction createFaultWorld)) = Inr 2"
    by code_simp
  have c3: "fst (processRequestRowBody 2
            (snd (createInsert (activeUser createFaultWorld) (LocalTime 1741003200000)
                    (LocalTime 1741348800000) (entered CreateRequestAction createFaultWorld))))
       = Inl DatabaseError"
    by code_simp
  have c4: "fst (apiCreateRequest (LocalTime 1741003200000) (LocalTime 1741348800000)
            createFaultWorld) = Inr (NotAttempted, NotAttempted)"
    by code_simp
  have e1: "rateCache editFaultWorld (EditRequestAction, activeUser editFaultWorld) < 10
      \<and> lockFree editFaultWorld
      \<and> rowIndex (solicitudes editFaultWorld) 2 \<noteq> None
      \<and> faults editFaultWorld = False # False # False # False # [True]"
    by (simp add: editFaultWorld_def eveWorld_def baseWorld_def rowIndex_def)
  from processRequestRow_never_throws
    [of 2 createFaultWorld "LocalTime 1741003200000" "LocalTime 1741348800000" 2 2] c1 c2
  have c5: "\<exists>d. fst (apiCreateRequest (LocalTime 1741003200000) (LocalTime 1741348800000)
                 createFaultWorld) = Inr d"
    by blast
  from processRequestRow_never_throws
    [of 2 editFaultWorld "LocalTime 1744027200000" "LocalTime 1744372800000" 2 2] e1
  have e2: "fst (apiEditRequest 2 (LocalTime 1744027200000) (LocalTime 1744372800000)
            editFaultWorld) = Inr ()"
    by blast
  from c1 c2 c3 c4 c5 e1 e2 show ?thesis by blast
qed

text \<open>
  Claim C2 against the code: Eve, who is neither the requester nor a manager, edits Ana's
  approved request. \<open>apiEditRequest\<close> checks neither the owner nor the status: the call
  succeeds, the dates are overwritten and the status is reset to \<open>Pendiente\<close>.
\<close>

theorem apiEditRequest_unchecked:
  "activeUser eveWorld = ''eve@corp.com''
   \<and> rEmail (solicitudes eveWorld ! 0) = ''ana@corp.com''
   \<and> rEstado (solicitudes eveWorld ! 0) = Aprobado
   \<and> fst (apiEditRequest 2 (LocalTime 1744027200000) (LocalTime 1744372800000) eveWorld)
       = Inr ()
   \<and> rInicio (solicitudes (snd (apiEditRequest 2 (LocalTime 1744027200000)
        (LocalTime 1744372800000) eveWorld)) ! 0) = Some (LocalTime 1744027200000)
   \<and> rFin (solicitudes (snd (apiEditRequest 2 (LocalTime 1744027200000)
        (LocalTime 1744372800000) eveWorld)) ! 0) = Some (LocalTime 1744372800000)
   \<and> rEstado (solicitudes (snd (apiEditRequest 2 (LocalTime 1744027200000)
        (LocalTime 1744372800000) eveWorld)) ! 0) = Pendiente"
  by code_simp

section \<open>The script lock\<close>

lemma apiCancelRequest_releases:
  "lockHeld (snd (apiCancelRequest rowId w)) =
     (if rateCache w (CancelRequestAction, activeUser w) < 3 \<and> lockFree w then False
      else lockHeld w)"
  by (simp add: apiCancelRequest_def run checkRateLimit_def waitLock_def releaseLock_def
      Let_def split: prod.splits)

lemma apiEditRequest_releases:
  "lockHeld (snd (apiEditRequest rowId startObj endObj w)) =
     (if rateCache w (EditRequestAction, activeUser w) < 10 \<and> lockFree w then False
      else lockHeld w)"
  by (simp add: apiEditRequest_def run checkRateLimit_def waitLock_def releaseLock_def
      Let_def split: prod.splits)

lemma apiCreateRequest_releases:
  "lockHeld (snd (apiCreateRequest startObj endObj w)) =
     (if rateCache w (CreateRequestAction, activeUser w) < 5 \<and> lockFree w then False
      else lockHeld w)"
  by (simp add: apiCreateRequest_def run checkRateLimit_def waitLock_def releaseLock_def
      Let_def split: prod.splits)

lemma busy_lock:
  "rateCache w (CancelRequestAction, activeUser w) < 3 \<Longrightarrow> \<not> lockFree w \<Longrightarrow>
     fst (apiCancelRequest rowId w) = Inl ServerBusy"
  "rateCache w (EditRequestAction, activeUser w) < 10 \<Longrightarrow> \<not> lockFree w \<Longrightarrow>
     fst (apiEditRequest rowId startObj endObj w) = Inl ServerBusy"
  "rateCache w (CreateRequestAction, activeUser w) < 5 \<Longrightarrow> \<not> lockFree w \<Longrightarrow>
     fst (apiCreateRequest startObj endObj w) = Inl ServerBusy"
  by (simp_all add: apiCancelRequest_def apiEditRequest_def apiCreateRequest_def run
      checkRateLimit_def waitLock_def Let_def)

text \<open>
  Claim C9 against the code: \<open>apiProcessRequest\<close> never asks for the script lock. The
  manager's decision on Ana's request reads and writes the two tables fifteen times, each
  time without the lock, while the cancellation of a request by its owner makes all its
  accesses with the lock held and releases it at the end.
\<close>

theorem apiProcessRequest_without_lock:
  "lockHeld decisionWorld = False
   \<and> fst (apiProcessRequest 2 AprobadoExcepcion decisionWorld) = Inr ()
   \<and> accessLog (snd (apiProcessRequest 2 AprobadoExcepcion decisionWorld)) = replicate 15 False
   \<and> fst (apiCancelRequest 2 cancelWorld) = Inr ()
   \<and> accessLog (snd (apiCancelRequest 2 cancelWorld)) = replicate 8 True
   \<and> lockHeld (snd (apiCancelRequest 2 cancelWorld)) = False"
  by code_simp


end
